theory Spec2Isabelle
  imports Main "HOL-Library.AList" "HOL-Library.Sublist" "HOL-Library.Multiset"
begin

section \<open>JavaScript values\<close>

text \<open>
  The server is TypeScript, but every value that reaches the storage layer and the
  generators comes from \<open>req.body\<close> or from \<open>JSON.parse\<close> (both typed \<open>any\<close>), so the
  declared types are not checked at run time. The model therefore works on run-time
  values.

  \<^item> \<open>Num\<close> carries the integer-valued Numbers (magnitude below \<open>2^53\<close>); fractions, NaN
    and the infinities are not represented.
  \<^item> \<open>Str\<close> carries the UTF-8 bytes of a string.
  \<^item> \<open>Obj\<close> is a plain object: its own properties, in insertion order (no key
    that occurs below is an array index, which an engine would enumerate first).
  \<^item> \<open>Date\<close> is a \<open>Date\<close> object holding a valid time value (milliseconds).
\<close>

datatype jsval =
    Undefined
  | Null
  | Bool bool
  | Num int
  | Str string
  | Arr "jsval list"
  | Obj "(string \<times> jsval) list"
  | Date int

type_synonym jsobj = "(string \<times> jsval) list"

text \<open>ToBoolean.\<close>

fun truthy :: "jsval \<Rightarrow> bool" where
  "truthy Undefined = False"
| "truthy Null = False"
| "truthy (Bool b) = b"
| "truthy (Num n) = (n \<noteq> 0)"
| "truthy (Str s) = (s \<noteq> [])"
| "truthy (Arr xs) = True"
| "truthy (Obj kvs) = True"
| "truthy (Date t) = True"

text \<open>\<open>a || b\<close> and \<open>a ?? b\<close>.\<close>

definition or_else :: "jsval \<Rightarrow> jsval \<Rightarrow> jsval" where
  "or_else a b = (if truthy a then a else b)"

definition nullish :: "jsval \<Rightarrow> bool" where
  "nullish v = (v = Undefined \<or> v = Null)"

definition coalesce :: "jsval \<Rightarrow> jsval \<Rightarrow> jsval" where
  "coalesce a b = (if nullish a then b else a)"

text \<open>
  \<open>o.k\<close> on a plain object, for the keys the program reads by name (none of them is a
  member of \<open>Object.prototype\<close>): the own property, or \<open>undefined\<close>.
\<close>

definition get :: "jsobj \<Rightarrow> string \<Rightarrow> jsval" where
  "get obj k = (case map_of obj k of None \<Rightarrow> Undefined | Some v \<Rightarrow> v)"

text \<open>
  An object literal \<open>{...base, k1: v1, k2: v2}\<close>, and \<open>{...base, ...more}\<close>: each
  property is defined in turn; a key that exists keeps its place, a new key goes last.
\<close>

definition assign :: "jsobj \<Rightarrow> (string \<times> jsval) list \<Rightarrow> jsobj" where
  "assign base props = fold (\<lambda>(k, v). AList.update k v) props base"

definition default_lists :: jsval where
  "default_lists = Obj [(''ar'', Arr []), (''en'', Arr []), (''fr'', Arr [])]"

section \<open>MemStorage\<close>

text \<open>
  The two \<open>Map\<close>s of \<open>MemStorage\<close>, in insertion order (\<open>Map.prototype.values\<close>
  iterates in that order; \<open>set\<close> on a present key keeps its place).
  \<open>randomUUID()\<close> and \<open>new Date()\<close> read the environment: each operation that calls
  them takes the identifier and the clock reading as arguments.
\<close>

record store =
  products :: "(string \<times> jsobj) list"
  orders :: "(string \<times> jsobj) list"

definition empty_store :: store where
  "empty_store = \<lparr>products = [], orders = []\<rparr>"

definition getProduct :: "store \<Rightarrow> string \<Rightarrow> jsobj option" where
  "getProduct s pid = map_of (products s) pid"

definition createProduct :: "store \<Rightarrow> string \<Rightarrow> int \<Rightarrow> jsobj \<Rightarrow> jsobj \<times> store" where
  "createProduct s new_id now insertProduct =
     (let product = assign insertProduct
            [(''id'', Str new_id),
             (''price'', coalesce (get insertProduct ''price'') Null),
             (''category'', coalesce (get insertProduct ''category'') Null),
             (''benefits'', or_else (get insertProduct ''benefits'') default_lists),
             (''features'', or_else (get insertProduct ''features'') default_lists),
             (''createdAt'', Date now)]
      in (product, s\<lparr>products := AList.update new_id product (products s)\<rparr>))"

definition updateProduct :: "store \<Rightarrow> string \<Rightarrow> jsobj \<Rightarrow> jsobj option \<times> store" where
  "updateProduct s pid updates =
     (case map_of (products s) pid of
        None \<Rightarrow> (None, s)
      | Some product \<Rightarrow>
          (let updated = assign (assign product updates)
                 [(''benefits'', or_else (get updates ''benefits'')
                                   (or_else (get product ''benefits'') default_lists)),
                  (''features'', or_else (get updates ''features'')
                                   (or_else (get product ''features'') default_lists))]
           in (Some updated, s\<lparr>products := AList.update pid updated (products s)\<rparr>)))"

definition deleteProduct :: "store \<Rightarrow> string \<Rightarrow> bool \<times> store" where
  "deleteProduct s pid =
     (pid \<in> fst ` set (products s), s\<lparr>products := AList.delete pid (products s)\<rparr>)"

definition getOrder :: "store \<Rightarrow> string \<Rightarrow> jsobj option" where
  "getOrder s oid = map_of (orders s) oid"

definition createOrder :: "store \<Rightarrow> string \<Rightarrow> int \<Rightarrow> jsobj \<Rightarrow> jsobj \<times> store" where
  "createOrder s new_id now insertOrder =
     (let order = assign insertOrder
            [(''id'', Str new_id),
             (''status'', or_else (get insertOrder ''status'') (Str ''pending'')),
             (''quantity'', or_else (get insertOrder ''quantity'') (Num 1)),
             (''language'', or_else (get insertOrder ''language'') (Str ''ar'')),
             (''customerAddress'', or_else (get insertOrder ''customerAddress'') Null),
             (''customerCity'', or_else (get insertOrder ''customerCity'') Null),
             (''notes'', or_else (get insertOrder ''notes'') Null),
             (''confirmationScript'', or_else (get insertOrder ''confirmationScript'') Null),
             (''createdAt'', Date now)]
      in (order, s\<lparr>orders := AList.update new_id order (orders s)\<rparr>))"

definition updateOrder :: "store \<Rightarrow> string \<Rightarrow> jsobj \<Rightarrow> jsobj option \<times> store" where
  "updateOrder s oid updates =
     (case map_of (orders s) oid of
        None \<Rightarrow> (None, s)
      | Some order \<Rightarrow>
          (let updated = assign order updates
           in (Some updated, s\<lparr>orders := AList.update oid updated (orders s)\<rparr>)))"

definition deleteOrder :: "store \<Rightarrow> string \<Rightarrow> bool \<times> store" where
  "deleteOrder s oid =
     (oid \<in> fst ` set (orders s), s\<lparr>orders := AList.delete oid (orders s)\<rparr>)"

text \<open>
  \<open>new Date(v).getTime()\<close>, as the comparator of \<open>getProducts\<close> computes it: the time
  value of a \<open>Date\<close>, the number itself when it is in the range of time values, 0 for
  \<open>null\<close> and \<open>false\<close>, 1 for \<open>true\<close>. \<open>None\<close> stands for NaN (from \<open>undefined\<close> or a
  number out of range) and for the values that go through \<open>Date.parse\<close>, which is
  not modelled.
\<close>

fun getTime :: "jsval \<Rightarrow> int option" where
  "getTime (Date t) = Some t"
| "getTime (Num n) = (if \<bar>n\<bar> \<le> 8640000000000000 then Some n else None)"
| "getTime Null = Some 0"
| "getTime (Bool b) = Some (if b then 1 else 0)"
| "getTime Undefined = None"
| "getTime (Str s) = None"
| "getTime (Arr xs) = None"
| "getTime (Obj kvs) = None"

definition created_ms :: "jsobj \<Rightarrow> int" where
  "created_ms p = the (getTime (get p ''createdAt''))"

text \<open>
  \<open>Array.from(this.products.values()).sort((a, b) => time(b) - time(a))\<close>.
  \<open>Array.prototype.sort\<close> is stable, and with a consistent comparator the stable sorted
  arrangement of a list is unique, so the stable insertion sort \<open>sort_key\<close> on the
  negated time returns the array the engine returns. When some time is NaN the
  comparator is not consistent and the language leaves the order to the engine: the
  model returns \<open>None\<close> there.
\<close>

definition getProducts :: "store \<Rightarrow> jsobj list option" where
  "getProducts s =
     (let vs = map snd (products s)
      in if list_all (\<lambda>p. getTime (get p ''createdAt'') \<noteq> None) vs
         then Some (sort_key (\<lambda>p. - created_ms p) vs)
         else None)"

text \<open>\<open>typeof v === "object" && v !== null\<close>.\<close>

fun is_object :: "jsval \<Rightarrow> bool" where
  "is_object (Arr xs) = True"
| "is_object (Obj kvs) = True"
| "is_object (Date t) = True"
| "is_object v = False"

subsection \<open>Histories of product operations\<close>

text \<open>
  A history of calls on the product map, run from left to right. \<open>created_live\<close> reads
  a history the way the specification speaks about an id: it has been created, and not
  deleted since.
\<close>

datatype product_op =
    CreateProduct string int jsobj
  | UpdateProduct string jsobj
  | DeleteProduct string

fun apply_op :: "store \<Rightarrow> product_op \<Rightarrow> store" where
  "apply_op s (CreateProduct new_id now p) = snd (createProduct s new_id now p)"
| "apply_op s (UpdateProduct pid u) = snd (updateProduct s pid u)"
| "apply_op s (DeleteProduct pid) = snd (deleteProduct s pid)"

definition run_ops :: "store \<Rightarrow> product_op list \<Rightarrow> store" where
  "run_ops s ops = foldl apply_op s ops"

fun created_live :: "bool \<Rightarrow> string \<Rightarrow> product_op list \<Rightarrow> bool" where
  "created_live b pid [] = b"
| "created_live b pid (CreateProduct new_id now p # ops) = created_live (b \<or> new_id = pid) pid ops"
| "created_live b pid (UpdateProduct i u # ops) = created_live b pid ops"
| "created_live b pid (DeleteProduct i # ops) = created_live (b \<and> i \<noteq> pid) pid ops"

text \<open>A history made of product creations only: one (id, clock reading, input) per call.\<close>

definition create_all :: "store \<Rightarrow> (string \<times> int \<times> jsobj) list \<Rightarrow> store" where
  "create_all s cs = run_ops s (map (\<lambda>(new_id, now, p). CreateProduct new_id now p) cs)"

section \<open>HTTP routes\<close>

text \<open>
  What a handler sends: \<open>res.json(entity)\<close> with status 200, or
  \<open>res.status(code).json({message})\<close>, of which the status code is kept. The entity
  is the object handed to \<open>res.json\<close>, before serialisation. A handler receives the
  parsed body, an object.
\<close>

datatype response =
    Json jsobj
  | Failure nat

text \<open>\<open>PATCH /api/orders/:id\<close>: the body goes to \<open>updateOrder\<close> as it is.\<close>

definition patch_order :: "store \<Rightarrow> string \<Rightarrow> jsobj \<Rightarrow> response \<times> store" where
  "patch_order s oid body =
     (case updateOrder s oid body of
        (None, s') \<Rightarrow> (Failure 404, s')
      | (Some order, s') \<Rightarrow> (Json order, s'))"

text \<open>\<open>PATCH /api/products/:id\<close>: the body goes to \<open>updateProduct\<close> as it is.\<close>

definition patch_product :: "store \<Rightarrow> string \<Rightarrow> jsobj \<Rightarrow> response \<times> store" where
  "patch_product s pid body =
     (case updateProduct s pid body of
        (None, s') \<Rightarrow> (Failure 404, s')
      | (Some product, s') \<Rightarrow> (Json product, s'))"

section \<open>Coercions\<close>

text \<open>
  What can interrupt an expression. \<open>TypeError\<close> is the exception the engine throws
  (reading a property of \<open>undefined\<close> or \<open>null\<close>, calling something that is not a
  function, converting an object that has no usable \<open>toString\<close>). \<open>Unmodelled\<close> marks
  the places where the run leaves what this theory describes: members inherited from
  the built-in prototypes, the text of a \<open>Date\<close>, numeric parsing of strings.
  Nothing is proved about a run that ends \<open>Unmodelled\<close>.
\<close>

datatype failure = TypeError | Unmodelled

definition and_then :: "failure + 'a \<Rightarrow> ('a \<Rightarrow> failure + 'b) \<Rightarrow> failure + 'b" where
  "and_then m f = (case m of Inl e \<Rightarrow> Inl e | Inr v \<Rightarrow> f v)"

text \<open>
  A template literal: the pieces are evaluated and converted from left to right, and
  the first exception ends the evaluation.
\<close>

fun template :: "(failure + string) list \<Rightarrow> failure + string" where
  "template [] = Inr []"
| "template (piece # pieces) =
     (case piece of
        Inl e \<Rightarrow> Inl e
      | Inr s \<Rightarrow> (case template pieces of Inl e \<Rightarrow> Inl e | Inr rest \<Rightarrow> Inr (s @ rest)))"

text \<open>Number to string, for the integers in the safe range.\<close>

fun decimal :: "nat \<Rightarrow> string" where
  "decimal n =
     (if n < 10 then [''0123456789'' ! n]
      else decimal (n div 10) @ [''0123456789'' ! (n mod 10)])"

definition number_string :: "int \<Rightarrow> failure + string" where
  "number_string n =
     (if \<bar>n\<bar> \<le> 9007199254740991
      then Inr (if n < 0 then CHR ''-'' # decimal (nat (- n)) else decimal (nat n))
      else Inl Unmodelled)"

text \<open>
  ToString. An array is joined with commas, \<open>undefined\<close> and \<open>null\<close> elements giving the
  empty string. A plain object gives \<open>[object Object]\<close> through
  \<open>Object.prototype.toString\<close>; when it has an own property \<open>toString\<close> (never a
  function here), neither \<open>toString\<close> nor \<open>valueOf\<close> yields a primitive and the
  conversion throws.
\<close>

fun to_string :: "jsval \<Rightarrow> failure + string"
  and join_comma :: "jsval list \<Rightarrow> failure + string" where
  "to_string Undefined = Inr ''undefined''"
| "to_string Null = Inr ''null''"
| "to_string (Bool b) = Inr (if b then ''true'' else ''false'')"
| "to_string (Num n) = number_string n"
| "to_string (Str s) = Inr s"
| "to_string (Arr xs) = join_comma xs"
| "to_string (Obj kvs) =
     (case map_of kvs ''toString'' of
        None \<Rightarrow> Inr ''[object Object]''
      | Some v \<Rightarrow> Inl TypeError)"
| "to_string (Date t) = Inl Unmodelled"
| "join_comma [] = Inr []"
| "join_comma [x] = (if x = Undefined \<or> x = Null then Inr [] else to_string x)"
| "join_comma (x # y # ys) =
     (case (if x = Undefined \<or> x = Null then Inr [] else to_string x) of
        Inl e \<Rightarrow> Inl e
      | Inr s \<Rightarrow> (case join_comma (y # ys) of Inl e \<Rightarrow> Inl e | Inr rest \<Rightarrow> Inr (s @ '','' @ rest)))"

text \<open>
  Property read \<open>v[k]\<close> on any value. On a plain object: the own property, else the
  member of \<open>Object.prototype\<close> of that name (not modelled), else \<open>undefined\<close>. On the
  other values only the names below are answered (no built-in prototype defines them,
  so the read gives \<open>undefined\<close>).
\<close>

definition object_prototype_keys :: "string list" where
  "object_prototype_keys =
     [''constructor'', ''__defineGetter__'', ''__defineSetter__'', ''hasOwnProperty'',
      ''__lookupGetter__'', ''__lookupSetter__'', ''isPrototypeOf'', ''propertyIsEnumerable'',
      ''toString'', ''valueOf'', ''__proto__'', ''toLocaleString'']"

definition names_without_builtin :: "string list" where
  "names_without_builtin =
     [''ar'', ''en'', ''fr'', ''name'', ''descriptions'', ''benefits'', ''features'', ''price'',
      ''category'']"

fun get_prop :: "jsval \<Rightarrow> string \<Rightarrow> failure + jsval" where
  "get_prop Undefined k = Inl TypeError"
| "get_prop Null k = Inl TypeError"
| "get_prop (Obj kvs) k =
     (case map_of kvs k of
        Some v \<Rightarrow> Inr v
      | None \<Rightarrow> if k \<in> set object_prototype_keys then Inl Unmodelled else Inr Undefined)"
| "get_prop v k = (if k \<in> set names_without_builtin then Inr Undefined else Inl Unmodelled)"

subsection \<open>String.prototype.trim\<close>

text \<open>
  The white space and line terminator code points of the language, in UTF-8:
  U+0009 to U+000D, U+0020, U+00A0, U+1680, U+2000 to U+200A, U+2028, U+2029, U+202F,
  U+205F, U+3000, U+FEFF.
\<close>

definition js_whitespace :: "string list" where
  "js_whitespace =
     [[CHR 0x09], [CHR 0x0A], [CHR 0x0B], [CHR 0x0C], [CHR 0x0D], [CHR 0x20],
      [CHR 0xC2, CHR 0xA0], [CHR 0xE1, CHR 0x9A, CHR 0x80],
      [CHR 0xE2, CHR 0x80, CHR 0x80], [CHR 0xE2, CHR 0x80, CHR 0x81],
      [CHR 0xE2, CHR 0x80, CHR 0x82], [CHR 0xE2, CHR 0x80, CHR 0x83],
      [CHR 0xE2, CHR 0x80, CHR 0x84], [CHR 0xE2, CHR 0x80, CHR 0x85],
      [CHR 0xE2, CHR 0x80, CHR 0x86], [CHR 0xE2, CHR 0x80, CHR 0x87],
      [CHR 0xE2, CHR 0x80, CHR 0x88], [CHR 0xE2, CHR 0x80, CHR 0x89],
      [CHR 0xE2, CHR 0x80, CHR 0x8A], [CHR 0xE2, CHR 0x80, CHR 0xA8],
      [CHR 0xE2, CHR 0x80, CHR 0xA9], [CHR 0xE2, CHR 0x80, CHR 0xAF],
      [CHR 0xE2, CHR 0x81, CHR 0x9F], [CHR 0xE3, CHR 0x80, CHR 0x80],
      [CHR 0xEF, CHR 0xBB, CHR 0xBF]]"

function strip :: "string list \<Rightarrow> string \<Rightarrow> string" where
  "strip pats s =
     (case find (\<lambda>w. w \<noteq> [] \<and> prefix w s) pats of
        None \<Rightarrow> s
      | Some w \<Rightarrow> strip pats (drop (length w) s))"
  by pat_completeness auto
termination
proof (relation "measure (\<lambda>(pats, s). length s)")
  show "wf (measure (\<lambda>(pats, s). length s))" by simp
next
  fix pats :: "string list" and s w :: string
  assume "find (\<lambda>w. w \<noteq> [] \<and> prefix w s) pats = Some w"
  then have "w \<noteq> []" and "prefix w s"
    by (auto simp: find_Some_iff)
  then have "length (drop (length w) s) < length s"
    by (cases s) (auto simp: prefix_def)
  then show "((pats, drop (length w) s), (pats, s)) \<in> measure (\<lambda>(pats, s). length s)"
    by simp
qed

definition trim :: "string \<Rightarrow> string" where
  "trim s = rev (strip (map rev js_whitespace) (rev (strip js_whitespace s)))"

section \<open>Confirmation script\<close>

text \<open>
  \<open>generateConfirmationScript\<close> builds the object \<open>scripts\<close> with its three trimmed
  templates, in the order ar, en, fr, and returns \<open>scripts[lang]\<close>: one of the three
  strings, or \<open>undefined\<close> for any other key.
\<close>

definition script_ar :: "jsobj \<Rightarrow> jsobj \<Rightarrow> failure + string" where
  "script_ar product customer =
     and_then
       (template
         [Inr (''\<newline>'' @ [CHR 0xD8, CHR 0xA7, CHR 0xD9, CHR 0x84, CHR 0xD8, CHR 0xB3] @
               [CHR 0xD9, CHR 0x84, CHR 0xD8, CHR 0xA7, CHR 0xD9, CHR 0x85] @ '' '' @
               [CHR 0xD8, CHR 0xB9, CHR 0xD9, CHR 0x84, CHR 0xD9, CHR 0x8A] @
               [CHR 0xD9, CHR 0x83, CHR 0xD9, CHR 0x85] @ '' ''),
          to_string (get customer ''customerName''),
          Inr ([CHR 0xD8, CHR 0x8C] @ ''\<newline>\<newline>'' @
               [CHR 0xD8, CHR 0xA3, CHR 0xD8, CHR 0xB4, CHR 0xD9, CHR 0x83] @
               [CHR 0xD8, CHR 0xB1, CHR 0xD9, CHR 0x83] @ '' '' @
               [CHR 0xD8, CHR 0xB9, CHR 0xD9, CHR 0x84, CHR 0xD9, CHR 0x89] @ '' '' @
               [CHR 0xD8, CHR 0xA7, CHR 0xD9, CHR 0x87, CHR 0xD8, CHR 0xAA] @
               [CHR 0xD9, CHR 0x85, CHR 0xD8, CHR 0xA7, CHR 0xD9, CHR 0x85] @
               [CHR 0xD9, CHR 0x83] @ '' '' @
               [CHR 0xD8, CHR 0xA8, CHR 0xD9, CHR 0x85, CHR 0xD9, CHR 0x86] @
               [CHR 0xD8, CHR 0xAA, CHR 0xD8, CHR 0xAC, CHR 0xD9, CHR 0x86] @
               [CHR 0xD8, CHR 0xA7] @ ''.\<newline>\<newline>'' @
               [CHR 0xD8, CHR 0xAA, CHR 0xD9, CHR 0x81, CHR 0xD8, CHR 0xA7] @
               [CHR 0xD8, CHR 0xB5, CHR 0xD9, CHR 0x8A, CHR 0xD9, CHR 0x84] @ '' '' @
               [CHR 0xD8, CHR 0xB7, CHR 0xD9, CHR 0x84, CHR 0xD8, CHR 0xA8] @
               [CHR 0xD9, CHR 0x83] @ '':\<newline>'' @
               [CHR 0xD8, CHR 0xA7, CHR 0xD9, CHR 0x84, CHR 0xD9, CHR 0x85] @
               [CHR 0xD9, CHR 0x86, CHR 0xD8, CHR 0xAA, CHR 0xD8, CHR 0xAC] @ '': ''),
          to_string (get product ''name''),
          Inr (''\<newline>'' @ [CHR 0xD8, CHR 0xA7, CHR 0xD9, CHR 0x84, CHR 0xD9, CHR 0x83] @
               [CHR 0xD9, CHR 0x85, CHR 0xD9, CHR 0x8A, CHR 0xD8, CHR 0xA9] @ '': ''),
          to_string (get customer ''quantity''),
          Inr ''\<newline>'',
          (if truthy (get product ''price'')
           then template
                  [Inr ([CHR 0xD8, CHR 0xA7, CHR 0xD9, CHR 0x84, CHR 0xD8, CHR 0xB3] @
                        [CHR 0xD8, CHR 0xB9, CHR 0xD8, CHR 0xB1] @ '': ''),
                   to_string (get product ''price'')]
           else Inr []),
          Inr (''\<newline>\<newline>'' @
               [CHR 0xD9, CHR 0x88, CHR 0xD8, CHR 0xB5, CHR 0xD9, CHR 0x81] @ '' '' @
               [CHR 0xD8, CHR 0xA7, CHR 0xD9, CHR 0x84, CHR 0xD9, CHR 0x85] @
               [CHR 0xD9, CHR 0x86, CHR 0xD8, CHR 0xAA, CHR 0xD8, CHR 0xAC] @ '':\<newline>''),
          and_then (get_prop (get product ''descriptions'') ''ar'') to_string,
          Inr ''\<newline>\<newline>'',
          (if truthy (get customer ''customerCity'')
           then template
                  [Inr ([CHR 0xD8, CHR 0xA7, CHR 0xD9, CHR 0x84, CHR 0xD9, CHR 0x85] @
                        [CHR 0xD8, CHR 0xAF, CHR 0xD9, CHR 0x8A, CHR 0xD9, CHR 0x86] @
                        [CHR 0xD8, CHR 0xA9] @ '': ''),
                   to_string (get customer ''customerCity'')]
           else Inr []),
          Inr ''\<newline>'',
          (if truthy (get customer ''customerAddress'')
           then template
                  [Inr ([CHR 0xD8, CHR 0xA7, CHR 0xD9, CHR 0x84, CHR 0xD8, CHR 0xB9] @
                        [CHR 0xD9, CHR 0x86, CHR 0xD9, CHR 0x88, CHR 0xD8, CHR 0xA7] @
                        [CHR 0xD9, CHR 0x86] @ '': ''),
                   to_string (get customer ''customerAddress'')]
           else Inr []),
          Inr (''\<newline>\<newline>'' @ [CHR 0xD9, CHR 0x87, CHR 0xD9, CHR 0x84] @ '' '' @
               [CHR 0xD8, CHR 0xAA, CHR 0xD8, CHR 0xA4, CHR 0xD9, CHR 0x83] @
               [CHR 0xD8, CHR 0xAF] @ '' '' @
               [CHR 0xD9, CHR 0x87, CHR 0xD8, CHR 0xB0, CHR 0xD8, CHR 0xA7] @ '' '' @
               [CHR 0xD8, CHR 0xA7, CHR 0xD9, CHR 0x84, CHR 0xD8, CHR 0xB7] @
               [CHR 0xD9, CHR 0x84, CHR 0xD8, CHR 0xA8, CHR 0xD8, CHR 0x9F] @
               ''\<newline>\<newline>'' @
               [CHR 0xD9, CHR 0x86, CHR 0xD8, CHR 0xAD, CHR 0xD9, CHR 0x86] @ '' '' @
               [CHR 0xD9, CHR 0x81, CHR 0xD9, CHR 0x8A] @ '' '' @
               [CHR 0xD8, CHR 0xA7, CHR 0xD9, CHR 0x86, CHR 0xD8, CHR 0xAA] @
               [CHR 0xD8, CHR 0xB8, CHR 0xD8, CHR 0xA7, CHR 0xD8, CHR 0xB1] @ '' '' @
               [CHR 0xD8, CHR 0xB1, CHR 0xD8, CHR 0xAF, CHR 0xD9, CHR 0x83] @ ''.\<newline>'' @
               [CHR 0xD8, CHR 0xB4, CHR 0xD9, CHR 0x83, CHR 0xD8, CHR 0xB1] @
               [CHR 0xD8, CHR 0xA7, CHR 0xD9, CHR 0x8B] @ '' '' @
               [CHR 0xD9, CHR 0x84, CHR 0xD8, CHR 0xAB, CHR 0xD9, CHR 0x82] @
               [CHR 0xD8, CHR 0xAA, CHR 0xD9, CHR 0x83, CHR 0xD9, CHR 0x85] @ '' '' @
               [CHR 0xD8, CHR 0xA8, CHR 0xD9, CHR 0x86, CHR 0xD8, CHR 0xA7] @
               ''.\<newline>    '')])
       (\<lambda>text. Inr (trim text))"

definition script_en :: "jsobj \<Rightarrow> jsobj \<Rightarrow> failure + string" where
  "script_en product customer =
     and_then
       (template
         [Inr ''\<newline>Hello '',
          to_string (get customer ''customerName''),
          Inr ('',\<newline>\<newline>Thank you for your interest in our prod'' @
               ''uct.\<newline>\<newline>Order Details:\<newline>'' @ ''Product: ''),
          to_string (get product ''name''),
          Inr ''\<newline>Quantity: '',
          to_string (get customer ''quantity''),
          Inr ''\<newline>'',
          (if truthy (get product ''price'')
           then template
                  [Inr ''Price: '',
                   to_string (get product ''price'')]
           else Inr []),
          Inr ''\<newline>\<newline>Product Description:\<newline>'',
          and_then (get_prop (get product ''descriptions'') ''en'') to_string,
          Inr ''\<newline>\<newline>'',
          (if truthy (get customer ''customerCity'')
           then template
                  [Inr ''City: '',
                   to_string (get customer ''customerCity'')]
           else Inr []),
          Inr ''\<newline>'',
          (if truthy (get customer ''customerAddress'')
           then template
                  [Inr ''Address: '',
                   to_string (get customer ''customerAddress'')]
           else Inr []),
          Inr (''\<newline>\<newline>Do you confirm this order?\<newline>'' @
               ''\<newline>We look forward to your response.\<newline>'' @
               ''Thank you for your trust.\<newline>'' @ ''    '')])
       (\<lambda>text. Inr (trim text))"

definition script_fr :: "jsobj \<Rightarrow> jsobj \<Rightarrow> failure + string" where
  "script_fr product customer =
     and_then
       (template
         [Inr ''\<newline>Bonjour '',
          to_string (get customer ''customerName''),
          Inr ('',\<newline>\<newline>Merci pour votre int'' @ [CHR 0xC3, CHR 0xA9] @ ''r'' @
               [CHR 0xC3, CHR 0xAA] @ ''t pour notre produit.\<newline>'' @ ''\<newline>D'' @
               [CHR 0xC3, CHR 0xA9] @ ''tails de la commande:\<newline>'' @ ''Produit: ''),
          to_string (get product ''name''),
          Inr (''\<newline>Quantit'' @ [CHR 0xC3, CHR 0xA9] @ '': ''),
          to_string (get customer ''quantity''),
          Inr ''\<newline>'',
          (if truthy (get product ''price'')
           then template
                  [Inr ''Prix: '',
                   to_string (get product ''price'')]
           else Inr []),
          Inr ''\<newline>\<newline>Description du produit:\<newline>'',
          and_then (get_prop (get product ''descriptions'') ''fr'') to_string,
          Inr ''\<newline>\<newline>'',
          (if truthy (get customer ''customerCity'')
           then template
                  [Inr ''Ville: '',
                   to_string (get customer ''customerCity'')]
           else Inr []),
          Inr ''\<newline>'',
          (if truthy (get customer ''customerAddress'')
           then template
                  [Inr ''Adresse: '',
                   to_string (get customer ''customerAddress'')]
           else Inr []),
          Inr (''\<newline>\<newline>Confirmez-vous cette commande?\<newline>'' @
               ''\<newline>Nous attendons votre r'' @ [CHR 0xC3, CHR 0xA9] @
               ''ponse.\<newline>Merci pour votre confiance.\<newline>'' @ ''    '')])
       (\<lambda>text. Inr (trim text))"

definition generateConfirmationScript :: "jsobj \<Rightarrow> jsobj \<Rightarrow> jsval \<Rightarrow> failure + jsval" where
  "generateConfirmationScript product customer lang =
     and_then (script_ar product customer) (\<lambda>ar.
     and_then (script_en product customer) (\<lambda>en.
     and_then (script_fr product customer) (\<lambda>fr.
     and_then (to_string lang) (\<lambda>key.
       get_prop (Obj [(''ar'', Str ar), (''en'', Str en), (''fr'', Str fr)]) key))))"

section \<open>Product document\<close>

text \<open>
  \<open>generateProductPDF\<close>. The footer reads the clock:
  \<open>new Date().toLocaleDateString(locale)\<close>; the text it gives for a locale is the
  argument \<open>locale_date\<close>.
\<close>

record pdf_labels =
  l_product :: string
  l_name :: string
  l_price :: string
  l_category :: string
  l_description :: string
  l_benefits :: string
  l_features :: string

definition labels_ar :: pdf_labels where
  "labels_ar =
     \<lparr>l_product = [CHR 0xD8, CHR 0xAA, CHR 0xD9, CHR 0x81, CHR 0xD8, CHR 0xA7] @
                  [CHR 0xD8, CHR 0xB5, CHR 0xD9, CHR 0x8A, CHR 0xD9, CHR 0x84] @ '' '' @
                  [CHR 0xD8, CHR 0xA7, CHR 0xD9, CHR 0x84, CHR 0xD9, CHR 0x85] @
                  [CHR 0xD9, CHR 0x86, CHR 0xD8, CHR 0xAA, CHR 0xD8, CHR 0xAC],
      l_name = [CHR 0xD8, CHR 0xA7, CHR 0xD9, CHR 0x84, CHR 0xD8, CHR 0xA7] @
               [CHR 0xD8, CHR 0xB3, CHR 0xD9, CHR 0x85],
      l_price = [CHR 0xD8, CHR 0xA7, CHR 0xD9, CHR 0x84, CHR 0xD8, CHR 0xB3] @
                [CHR 0xD8, CHR 0xB9, CHR 0xD8, CHR 0xB1],
      l_category = [CHR 0xD8, CHR 0xA7, CHR 0xD9, CHR 0x84, CHR 0xD9, CHR 0x81] @
                   [CHR 0xD8, CHR 0xA6, CHR 0xD8, CHR 0xA9],
      l_description = [CHR 0xD8, CHR 0xA7, CHR 0xD9, CHR 0x84, CHR 0xD9, CHR 0x88] @
                      [CHR 0xD8, CHR 0xB5, CHR 0xD9, CHR 0x81],
      l_benefits = [CHR 0xD8, CHR 0xA7, CHR 0xD9, CHR 0x84, CHR 0xD9, CHR 0x81] @
                   [CHR 0xD9, CHR 0x88, CHR 0xD8, CHR 0xA7, CHR 0xD8, CHR 0xA6] @
                   [CHR 0xD8, CHR 0xAF],
      l_features = [CHR 0xD8, CHR 0xA7, CHR 0xD9, CHR 0x84, CHR 0xD9, CHR 0x85] @
                   [CHR 0xD9, CHR 0x8A, CHR 0xD8, CHR 0xB2, CHR 0xD8, CHR 0xA7] @
                   [CHR 0xD8, CHR 0xAA]\<rparr>"

definition labels_en :: pdf_labels where
  "labels_en =
     \<lparr>l_product = ''Product Details'',
      l_name = ''Name'',
      l_price = ''Price'',
      l_category = ''Category'',
      l_description = ''Description'',
      l_benefits = ''Benefits'',
      l_features = ''Features''\<rparr>"

definition labels_fr :: pdf_labels where
  "labels_fr =
     \<lparr>l_product = ''D'' @ [CHR 0xC3, CHR 0xA9] @ ''tails du Produit'',
      l_name = ''Nom'',
      l_price = ''Prix'',
      l_category = ''Cat'' @ [CHR 0xC3, CHR 0xA9] @ ''gorie'',
      l_description = ''Description'',
      l_benefits = ''Avantages'',
      l_features = ''Caract'' @ [CHR 0xC3, CHR 0xA9] @ ''ristiques''\<rparr>"

text \<open>\<open>labels[lang]\<close>, and \<open>t.field\<close> for the value found.\<close>

definition labels_lookup :: "string \<Rightarrow> failure + pdf_labels option" where
  "labels_lookup key =
     (if key = ''ar'' then Inr (Some labels_ar)
      else if key = ''en'' then Inr (Some labels_en)
      else if key = ''fr'' then Inr (Some labels_fr)
      else if key \<in> set object_prototype_keys then Inl Unmodelled
      else Inr None)"

definition label :: "pdf_labels option \<Rightarrow> (pdf_labels \<Rightarrow> string) \<Rightarrow> failure + string" where
  "label t field = (case t of None \<Rightarrow> Inl TypeError | Some l \<Rightarrow> Inr (field l))"

text \<open>
  \<open>x > 0\<close> after ToNumber, and \<open>v.length > 0\<close> for a value \<open>v\<close> that is neither
  \<open>undefined\<close> nor \<open>null\<close>.
\<close>

fun positive :: "jsval \<Rightarrow> failure + bool" where
  "positive Undefined = Inr False"
| "positive Null = Inr False"
| "positive (Bool b) = Inr b"
| "positive (Num n) = Inr (0 < n)"
| "positive (Date t) = Inr (0 < t)"
| "positive v = Inl Unmodelled"

fun length_positive :: "jsval \<Rightarrow> failure + bool" where
  "length_positive (Str s) = Inr (s \<noteq> [])"
| "length_positive (Arr xs) = Inr (xs \<noteq> [])"
| "length_positive (Obj kvs) =
     (case map_of kvs ''length'' of None \<Rightarrow> Inr False | Some v \<Rightarrow> positive v)"
| "length_positive v = Inr False"

text \<open>\<open>items?.[lang]?.length > 0\<close>.\<close>

definition has_items :: "jsval \<Rightarrow> jsval \<Rightarrow> failure + bool" where
  "has_items items lang =
     (if nullish items then Inr False
      else and_then (to_string lang) (\<lambda>key.
           and_then (get_prop items key) (\<lambda>list.
             if nullish list then Inr False else length_positive list)))"

text \<open>
  \<open>list.map((item) => `<li>${item}</li>`).join("")\<close>: only an array has a \<open>map\<close>
  to call.
\<close>

fun list_items :: "jsval \<Rightarrow> failure + string" where
  "list_items (Arr xs) =
     template (map (\<lambda>item. template [Inr ''<li>'', to_string item, Inr ''</li>'']) xs)"
| "list_items v = Inl TypeError"

text \<open>
  The two list blocks of the document, for the benefits and for the features: the
  same text around a title and a list, or the empty string when the list has no items.
\<close>

definition list_section ::
  "pdf_labels option \<Rightarrow> (pdf_labels \<Rightarrow> string) \<Rightarrow> jsval \<Rightarrow> jsval \<Rightarrow> failure + string" where
  \<open>list_section t title items lang =
     and_then (has_items items lang) (\<lambda>shown.
       if shown
       then template
              [Inr (''\<newline>  <div class="section">\<newline>'' @ ''    <h2>''),
               label t title,
               Inr (''</h2>\<newline>    <ul class="list">\<newline>'' @ ''      ''),
               and_then (to_string lang) (\<lambda>key. and_then (get_prop items key) list_items),
               Inr ''\<newline>    </ul>\<newline>  </div>'']
       else Inr [])\<close>

text \<open>The pieces of the template literal that \<open>generateProductPDF\<close> returns.\<close>

definition product_document_template ::
  "(string \<Rightarrow> string) \<Rightarrow> jsobj \<Rightarrow> jsval \<Rightarrow> pdf_labels option \<Rightarrow> string \<Rightarrow> string
     \<Rightarrow> (failure + string) list" where
  \<open>product_document_template locale_date product lang t benefits_html features_html =
     [Inr (''\<newline><!DOCTYPE html>\<newline>'' @ ''<html dir="''),
      Inr (if lang = Str ''ar'' then ''rtl'' else ''ltr''),
      Inr ''" lang="'',
      to_string lang,
      Inr (''">\<newline><head>\<newline>  <meta charset="UTF-8">\<newline>'' @
           ''  <title>''),
      to_string (get product ''name''),
      Inr (''</title>\<newline>  <style>\<newline>'' @
           ''    * { margin: 0; padding: 0; box-sizing: border-box; }\<newline>'' @
           ''    body { font-family: Arial, sans-serif; padding: 40px; ma'' @
           ''x-width: 800px; margin: 0 auto; background: #fff; color: #33'' @
           ''3; line-height: 1.6; }\<newline>'' @
           ''    .header { text-align: center; margin-bottom: 30px; paddi'' @
           ''ng-bottom: 20px; border-bottom: 2px solid #eee; }\<newline>'' @
           ''    .header h1 { font-size: 28px; color: #1a56db; margin-bot'' @
           ''tom: 10px; font-weight: bold; }\<newline>'' @
           ''    .product-image { text-align: center; margin-bottom: 30px'' @
           ''; }\<newline>    .product-image img { max-width: 400px; max-'' @
           ''height: 400px; object-fit: cover; border-radius: 8px; box-sh'' @
           ''adow: 0 4px 6px rgba(0,0,0,0.1); }\<newline>'' @
           ''    .details { margin-bottom: 30px; }\<newline>'' @
           ''    .detail-row { display: flex; margin-bottom: 15px; paddin'' @
           ''g: 10px; background: #f9fafb; border-radius: 6px; }\<newline>'' @
           ''    .detail-label { font-weight: bold; min-width: 120px; col'' @
           ''or: #6b7280; }\<newline>    .detail-value { flex: 1; }\<newline>'' @
           ''    .description { margin-top: 20px; padding: 20px; backgrou'' @
           ''nd: #f0f9ff; border-radius: 8px; line-height: 1.8; border-le'' @
           ''ft: 4px solid #1a56db; }\<newline>'' @
           ''    .section { margin-top: 30px; padding: 20px; background: '' @
           ''#fafafa; border-radius: 8px; }\<newline>'' @
           ''    .section h2 { font-size: 20px; color: #1a56db; margin-bo'' @
           ''ttom: 15px; border-bottom: 2px solid #e5e7eb; padding-bottom'' @
           '': 10px; }\<newline>    .list { margin-left: 20px; }\<newline>'' @
           ''    .list li { margin-bottom: 12px; line-height: 1.6; }\<newline>'' @
           ''    .footer { text-align: center; margin-top: 40px; padding-'' @
           ''top: 20px; border-top: 2px solid #eee; color: #9ca3af; font-'' @
           ''size: 12px; }\<newline>    @media print { body { padding: 20'' @
           ''px; } }\<newline>  </style>\<newline>'' @
           ''</head>\<newline><body>\<newline>'' @ ''  <div class="header">\<newline>'' @
           ''    <h1>''),
      label t l_product,
      Inr (''</h1>\<newline>  </div>\<newline>'' @
           ''  <div class="product-image">\<newline>'' @ ''    <img src="''),
      to_string (get product ''imageUrl''),
      Inr ''" alt="'',
      to_string (get product ''name''),
      Inr (''">\<newline>  </div>\<newline>'' @ ''  <div class="details">\<newline>'' @
           ''    <div class="detail-row">\<newline>'' @
           ''      <span class="detail-label">''),
      label t l_name,
      Inr '':</span>\<newline>      <span class="detail-value">'',
      to_string (get product ''name''),
      Inr (''</span>\<newline>    </div>\<newline>'' @ ''    ''),
      (if truthy (get product ''price'')
       then template
              [Inr (''\<newline>    <div class="detail-row">\<newline>'' @
                    ''      <span class="detail-label">''),
               label t l_price,
               Inr '':</span>\<newline>      <span class="detail-value">'',
               to_string (get product ''price''),
               Inr ''</span>\<newline>    </div>'']
       else Inr []),
      Inr ''\<newline>    '',
      (if truthy (get product ''category'')
       then template
              [Inr (''\<newline>    <div class="detail-row">\<newline>'' @
                    ''      <span class="detail-label">''),
               label t l_category,
               Inr '':</span>\<newline>      <span class="detail-value">'',
               to_string (get product ''category''),
               Inr ''</span>\<newline>    </div>'']
       else Inr []),
      Inr (''\<newline>  </div>\<newline>  <div class="description">\<newline>'' @
           ''    <strong>''),
      label t l_description,
      Inr '':</strong>\<newline>    <p style="margin-top: 10px;">'',
      and_then (to_string lang)
        (\<lambda>key. and_then (get_prop (get product ''descriptions'') key) to_string),
      Inr (''</p>\<newline>  </div>\<newline>'' @ ''  ''),
      Inr benefits_html,
      Inr ''\<newline>  '',
      Inr features_html,
      Inr (''\<newline>  <div class="footer">\<newline>'' @ ''    <p>ProductAI - ''),
      Inr (locale_date (if lang = Str ''ar'' then ''ar-MA''
                        else if lang = Str ''fr'' then ''fr-FR'' else ''en-US'')),
      Inr (''</p>\<newline>  </div>\<newline>'' @ ''</body>\<newline></html>\<newline>'' @
           ''  '')]\<close>

definition generateProductPDF ::
  "(string \<Rightarrow> string) \<Rightarrow> jsobj \<Rightarrow> jsval \<Rightarrow> failure + string" where
  "generateProductPDF locale_date product lang =
     and_then (and_then (to_string lang) labels_lookup) (\<lambda>t.
     and_then (list_section t l_benefits (get product ''benefits'') lang) (\<lambda>benefits_html.
     and_then (list_section t l_features (get product ''features'') lang) (\<lambda>features_html.
     and_then
       (template
          (product_document_template locale_date product lang t benefits_html features_html))
       (\<lambda>text. Inr (trim text)))))"

section \<open>Routes that create\<close>

text \<open>
  \<open>POST /api/orders\<close>. The fields are read from the body as they come; \<open>Map.get\<close>
  finds a product only under a string key. A \<open>TypeError\<close> raised while the script is
  generated is caught by the handler (status 500, nothing stored). The result is
  \<open>None\<close> when the run leaves the model.
\<close>

definition post_orders :: "store \<Rightarrow> string \<Rightarrow> int \<Rightarrow> jsobj \<Rightarrow> (response \<times> store) option" where
  "post_orders s new_id now body =
     (let productId = get body ''productId'';
          customerName = get body ''customerName'';
          customerPhone = get body ''customerPhone'';
          customerAddress = get body ''customerAddress'';
          customerCity = get body ''customerCity'';
          notes = get body ''notes'';
          quantity = get body ''quantity'';
          language = get body ''language''
      in if \<not> truthy productId \<or> \<not> truthy customerName \<or> \<not> truthy customerPhone
         then Some (Failure 400, s)
         else
           (case (case productId of Str pid \<Rightarrow> getProduct s pid | _ \<Rightarrow> None) of
              None \<Rightarrow> Some (Failure 404, s)
            | Some product \<Rightarrow>
                (case generateConfirmationScript product
                        [(''customerName'', customerName),
                         (''customerPhone'', customerPhone),
                         (''customerAddress'', customerAddress),
                         (''customerCity'', customerCity),
                         (''quantity'', or_else quantity (Num 1))]
                        (or_else language (Str ''ar'')) of
                   Inl TypeError \<Rightarrow> Some (Failure 500, s)
                 | Inl Unmodelled \<Rightarrow> None
                 | Inr confirmationScript \<Rightarrow>
                     (case createOrder s new_id now
                             [(''productId'', productId),
                              (''customerName'', customerName),
                              (''customerPhone'', customerPhone),
                              (''customerAddress'', customerAddress),
                              (''customerCity'', customerCity),
                              (''notes'', notes),
                              (''quantity'', or_else quantity (Num 1)),
                              (''status'', Str ''pending''),
                              (''language'', or_else language (Str ''ar'')),
                              (''confirmationScript'', confirmationScript)] of
                        (order, s') \<Rightarrow> Some (Json order, s')))))"

text \<open>
  \<open>POST /api/products/analyze\<close>, from the parsed reply of the model on: the upload,
  the call to the model and \<open>JSON.parse\<close> have happened, and gave \<open>imageUrl\<close> and
  \<open>analysis\<close>. Reading a field of a \<open>null\<close> reply throws, and the handler answers 500.
\<close>

definition analyze_product ::
  "store \<Rightarrow> string \<Rightarrow> int \<Rightarrow> string \<Rightarrow> jsval \<Rightarrow> (response \<times> store) option" where
  "analyze_product s new_id now imageUrl analysis =
     (case and_then (get_prop analysis ''name'') (\<lambda>name.
           and_then (get_prop analysis ''descriptions'') (\<lambda>descriptions.
           and_then (get_prop analysis ''benefits'') (\<lambda>benefits.
           and_then (get_prop analysis ''features'') (\<lambda>features.
           and_then (get_prop analysis ''price'') (\<lambda>price.
           and_then (get_prop analysis ''category'') (\<lambda>category.
             Inr [(''name'', or_else name (Str ''Unnamed Product'')),
                  (''imageUrl'', Str imageUrl),
                  (''descriptions'', descriptions),
                  (''benefits'', or_else benefits default_lists),
                  (''features'', or_else features default_lists),
                  (''price'', or_else price Null),
                  (''category'', or_else category Null)])))))) of
        Inl TypeError \<Rightarrow> Some (Failure 500, s)
      | Inl Unmodelled \<Rightarrow> None
      | Inr insertProduct \<Rightarrow>
          (case createProduct s new_id now insertProduct of
             (product, s') \<Rightarrow> Some (Json product, s')))"

subsection \<open>Requests that write products\<close>

datatype request =
    Analyze string int string jsval
  | PatchProduct string jsobj

fun handle :: "store \<Rightarrow> request \<Rightarrow> store option" where
  "handle s (Analyze new_id now imageUrl analysis) =
     map_option snd (analyze_product s new_id now imageUrl analysis)"
| "handle s (PatchProduct pid body) = Some (snd (patch_product s pid body))"

fun serve :: "store \<Rightarrow> request list \<Rightarrow> store option" where
  "serve s [] = Some s"
| "serve s (r # rs) = (case handle s r of None \<Rightarrow> None | Some s' \<Rightarrow> serve s' rs)"

text \<open>
  The shape the data model gives to \<open>descriptions\<close>: an object whose keys are exactly
  ar, en and fr, each holding a string.
\<close>

fun is_string :: "jsval \<Rightarrow> bool" where
  "is_string (Str s) = True"
| "is_string v = False"

definition descriptions_ok :: "jsval \<Rightarrow> bool" where
  "descriptions_ok d =
     (case d of
        Obj kvs \<Rightarrow> set (map fst kvs) = {''ar'', ''en'', ''fr''} \<and> list_all (\<lambda>(k, v). is_string v) kvs
      | _ \<Rightarrow> False)"

definition all_descriptions_ok :: "store \<Rightarrow> bool" where
  "all_descriptions_ok s =
     list_all (\<lambda>(pid, product). descriptions_ok (get product ''descriptions'')) (products s)"

text \<open>
  A request that keeps that shape: a reply whose \<open>descriptions\<close> has it (a reply that
  makes the handler fail creates nothing), an update that leaves \<open>descriptions\<close> out
  or supplies a value that has it.
\<close>

fun keeps_descriptions :: "request \<Rightarrow> bool" where
  "keeps_descriptions (Analyze new_id now imageUrl analysis) =
     (case get_prop analysis ''descriptions'' of Inl e \<Rightarrow> True | Inr d \<Rightarrow> descriptions_ok d)"
| "keeps_descriptions (PatchProduct pid body) =
     list_all (\<lambda>(k, v). k = ''descriptions'' \<longrightarrow> descriptions_ok v) body"

section \<open>Example data\<close>

text \<open>
  The product and the customer of the specification's example for the confirmation
  script, and the text the English template gives for them around the product's
  English description.
\<close>

definition chair :: jsobj where
  "chair =
     [(''name'', Str ''Chair''),
      (''imageUrl'', Str ''/uploads/chair.png''),
      (''descriptions'',
         Obj [(''ar'', Str ''Kursi khashabi''), (''en'', Str ''A wooden chair''),
              (''fr'', Str ''Une chaise en bois'')]),
      (''benefits'', default_lists),
      (''features'', default_lists),
      (''price'', Str ''$50''),
      (''category'', Null),
      (''id'', Str ''p1''),
      (''createdAt'', Date 5)]"

definition chair_store :: store where
  "chair_store = \<lparr>products = [(''p1'', chair)], orders = []\<rparr>"

definition ali :: jsobj where
  "ali =
     [(''customerName'', Str ''Ali''),
      (''customerPhone'', Str ''555''),
      (''customerAddress'', Undefined),
      (''customerCity'', Undefined),
      (''quantity'', Num 2)]"

definition chair_script :: "string \<Rightarrow> string" where
  "chair_script description =
     ''Hello Ali,\<newline>\<newline>Thank you for your interest in our product.\<newline>\<newline>'' @
     ''Order Details:\<newline>Product: Chair\<newline>Quantity: 2\<newline>Price: $50\<newline>\<newline>'' @
     ''Product Description:\<newline>'' @ description @ ''\<newline>\<newline>\<newline>\<newline>\<newline>'' @
     ''Do you confirm this order?\<newline>\<newline>We look forward to your response.\<newline>'' @
     ''Thank you for your trust.''"

section \<open>Properties of objects\<close>

declare strip.simps [simp del]
declare decimal.simps [simp del]

lemma keys_update: "fst ` set (AList.update k v al) = insert k (fst ` set al)"
  by (simp add: dom_update)

lemma keys_delete: "fst ` set (AList.delete k al) = fst ` set al - {k}"
proof -
  have "set (map fst (AList.delete k al)) = set (map fst al) - {k}"
    by (simp add: delete_keys)
  then show ?thesis by simp
qed

lemma get_update: "get (AList.update k v obj) k' = (if k' = k then v else get obj k')"
  by (simp add: get_def update_conv')

lemma map_of_assign:
  "map_of (assign base props) x =
     (case map_of (rev props) x of None \<Rightarrow> map_of base x | Some v \<Rightarrow> Some v)"
proof (induction props arbitrary: base)
  case Nil
  show ?case by (simp add: assign_def)
next
  case (Cons p props)
  obtain k v where p: "p = (k, v)" by (cases p)
  have "map_of (assign base (p # props)) x = map_of (assign (AList.update k v base) props) x"
    by (simp add: assign_def p)
  also have "\<dots> = (case map_of (rev props) x of
                      None \<Rightarrow> map_of (AList.update k v base) x | Some w \<Rightarrow> Some w)"
    by (rule Cons.IH)
  also have "\<dots> = (case map_of (rev (p # props)) x of None \<Rightarrow> map_of base x | Some w \<Rightarrow> Some w)"
    by (simp add: p update_conv' map_add_def split: option.splits)
  finally show ?case .
qed

lemma get_assign_other: "k \<notin> fst ` set props \<Longrightarrow> get (assign base props) k = get base k"
proof -
  assume "k \<notin> fst ` set props"
  then have "map_of (rev props) k = None"
    by (simp add: map_of_eq_None_iff)
  then show ?thesis
    by (simp add: get_def map_of_assign)
qed

lemma assign_Nil: "assign base [] = base"
  by (simp add: assign_def)

lemma assign_Cons: "assign base ((k, v) # props) = assign (AList.update k v base) props"
  by (simp add: assign_def)

lemma keys_assign: "fst ` set (assign base props) = fst ` set base \<union> fst ` set props"
proof (induction props arbitrary: base)
  case Nil
  show ?case by (simp add: assign_Nil)
next
  case (Cons p props)
  obtain k v where p: "p = (k, v)" by (cases p)
  show ?case
    by (simp add: p assign_Cons Cons.IH keys_update)
qed

lemma truthy_or_else: "truthy b \<Longrightarrow> truthy (or_else a b)"
  by (simp add: or_else_def)

lemma truthy_default_lists: "truthy default_lists"
  by (simp add: default_lists_def)

section \<open>Absent products\<close>

text \<open>
  C7. For every store and every id that is not a key of the product map,
  \<open>updateProduct\<close> returns the absent value (it is a value, not an exception) and the
  store, hence the set of stored products, is the one before the call.
\<close>

theorem updateProduct_absent:
  assumes "pid \<notin> fst ` set (products s)"
  shows "updateProduct s pid updates = (None, s)"
proof -
  from assms have "map_of (products s) pid = None"
    by (simp add: map_of_eq_None_iff)
  then show ?thesis
    by (simp add: updateProduct_def)
qed

theorem updateProduct_absent_witness:
  "''p2'' \<notin> fst ` set (products \<lparr>products = [(''p1'', [(''name'', Str ''Chair'')])], orders = []\<rparr>)
   \<and> updateProduct \<lparr>products = [(''p1'', [(''name'', Str ''Chair'')])], orders = []\<rparr>
        ''p2'' [(''name'', Str ''Table'')]
     = (None, \<lparr>products = [(''p1'', [(''name'', Str ''Chair'')])], orders = []\<rparr>)"
  using updateProduct_absent
    [of "''p2''" "\<lparr>products = [(''p1'', [(''name'', Str ''Chair'')])], orders = []\<rparr>"
        "[(''name'', Str ''Table'')]"]
  by simp

section \<open>Deleting products\<close>

lemma keys_apply_op:
  "pid \<in> fst ` set (products (apply_op s opn)) \<longleftrightarrow>
     created_live (pid \<in> fst ` set (products s)) pid [opn]"
proof (cases opn)
  case (CreateProduct new_id now p)
  then show ?thesis
    by (auto simp: createProduct_def Let_def keys_update)
next
  case (UpdateProduct i u)
  show ?thesis
  proof (cases "map_of (products s) i")
    case None
    with UpdateProduct show ?thesis by (simp add: updateProduct_def)
  next
    case (Some product)
    then have "i \<in> fst ` set (products s)"
      by (metis domI dom_map_of_conv_image_fst)
    with Some UpdateProduct show ?thesis
      by (auto simp: updateProduct_def Let_def keys_update)
  qed
next
  case (DeleteProduct i)
  then show ?thesis
    by (auto simp: deleteProduct_def keys_delete)
qed

lemma created_live_snoc:
  "created_live b pid (ops @ [opn]) = created_live (created_live b pid ops) pid [opn]"
  by (induction b pid ops rule: created_live.induct) simp_all

lemma keys_run_ops:
  "pid \<in> fst ` set (products (run_ops s ops)) \<longleftrightarrow>
     created_live (pid \<in> fst ` set (products s)) pid ops"
proof (induction ops rule: rev_induct)
  case Nil
  show ?case by (simp add: run_ops_def)
next
  case (snoc opn ops)
  have "pid \<in> fst ` set (products (run_ops s (ops @ [opn]))) \<longleftrightarrow>
        created_live (pid \<in> fst ` set (products (run_ops s ops))) pid [opn]"
    by (simp add: run_ops_def keys_apply_op)
  with snoc show ?case
    by (simp add: created_live_snoc)
qed

text \<open>
  C8. After any history of product operations on a new store, \<open>deleteProduct\<close> returns
  true exactly when the id has been created and not deleted since (so it returns false
  for an id never created and for one already deleted); and once it has been called,
  a second call with the same id returns false.
\<close>

theorem deleteProduct_true_once:
  "fst (deleteProduct (run_ops empty_store ops) pid) = created_live False pid ops
   \<and> fst (deleteProduct (snd (deleteProduct (run_ops empty_store ops) pid)) pid) = False"
proof -
  have "fst (deleteProduct (run_ops empty_store ops) pid)
          = (pid \<in> fst ` set (products (run_ops empty_store ops)))"
    by (simp add: deleteProduct_def)
  also have "\<dots> = created_live (pid \<in> fst ` set (products empty_store)) pid ops"
    by (rule keys_run_ops)
  finally have first: "fst (deleteProduct (run_ops empty_store ops) pid) = created_live False pid ops"
    by (simp add: empty_store_def)
  have "pid \<notin> fst ` set (AList.delete pid (products (run_ops empty_store ops)))"
    by (simp add: keys_delete)
  then have "fst (deleteProduct (snd (deleteProduct (run_ops empty_store ops) pid)) pid) = False"
    by (simp add: deleteProduct_def)
  with first show ?thesis by simp
qed

theorem deleteProduct_true_once_witness:
  "fst (deleteProduct (run_ops empty_store
          [CreateProduct ''a'' 5 [(''name'', Str ''Chair'')], DeleteProduct ''b'']) ''a'') = True
   \<and> fst (deleteProduct (run_ops empty_store
          [CreateProduct ''a'' 5 [(''name'', Str ''Chair'')], DeleteProduct ''a'']) ''a'') = False
   \<and> fst (deleteProduct (run_ops empty_store
          [CreateProduct ''a'' 5 [(''name'', Str ''Chair'')]]) ''b'') = False"
  using deleteProduct_true_once
          [of "[CreateProduct ''a'' 5 [(''name'', Str ''Chair'')], DeleteProduct ''b'']" "''a''"]
        deleteProduct_true_once
          [of "[CreateProduct ''a'' 5 [(''name'', Str ''Chair'')], DeleteProduct ''a'']" "''a''"]
        deleteProduct_true_once
          [of "[CreateProduct ''a'' 5 [(''name'', Str ''Chair'')]]" "''b''"]
  by simp

section \<open>Updating the status of an order\<close>

text \<open>
  C5. For every stored order whose status is "pending", \<open>updateOrder\<close> with
  \<open>{status: "confirmed"}\<close> (directly, or through \<open>PATCH /api/orders/:id\<close>) returns and
  stores an order whose status is "confirmed" and whose every other property,
  \<open>customerName\<close>, \<open>quantity\<close> and \<open>confirmationScript\<close> among them, has the value it
  had before; the keys of the order, the other orders and the products stay as they
  were.
\<close>

theorem updateOrder_confirm_changes_status_only:
  assumes "getOrder s oid = Some order"
    and "get order ''status'' = Str ''pending''"
  shows "case updateOrder s oid [(''status'', Str ''confirmed'')] of
           (None, s') \<Rightarrow> False
         | (Some updated, s') \<Rightarrow>
             get updated ''status'' = Str ''confirmed''
             \<and> (\<forall>k. k \<noteq> ''status'' \<longrightarrow> get updated k = get order k)
             \<and> map fst updated = map fst order
             \<and> getOrder s' oid = Some updated
             \<and> (\<forall>i. i \<noteq> oid \<longrightarrow> getOrder s' i = getOrder s i)
             \<and> products s' = products s
             \<and> patch_order s oid [(''status'', Str ''confirmed'')] = (Json updated, s')"
proof -
  from assms(1) have stored: "map_of (orders s) oid = Some order"
    by (simp add: getOrder_def)
  define updated where "updated = assign order [(''status'', Str ''confirmed'')]"
  define s' where "s' = s\<lparr>orders := AList.update oid updated (orders s)\<rparr>"
  have run: "updateOrder s oid [(''status'', Str ''confirmed'')] = (Some updated, s')"
    by (simp add: updateOrder_def stored updated_def s'_def Let_def)
  have upd: "updated = AList.update ''status'' (Str ''confirmed'') order"
    by (simp add: updated_def assign_Cons assign_Nil)
  from assms(2) have "map_of order ''status'' \<noteq> None"
    by (auto simp: get_def split: option.splits)
  then have "''status'' \<in> fst ` set order"
    by (simp add: map_of_eq_None_iff)
  then have keys: "map fst updated = map fst order"
    by (simp add: upd update_keys)
  have "get updated ''status'' = Str ''confirmed''"
    by (simp add: upd get_update)
  moreover have "\<forall>k. k \<noteq> ''status'' \<longrightarrow> get updated k = get order k"
    by (simp add: upd get_update)
  moreover have "getOrder s' oid = Some updated"
    by (simp add: getOrder_def s'_def update_conv')
  moreover have "\<forall>i. i \<noteq> oid \<longrightarrow> getOrder s' i = getOrder s i"
    by (simp add: getOrder_def s'_def update_conv')
  moreover have "products s' = products s"
    by (simp add: s'_def)
  moreover have "patch_order s oid [(''status'', Str ''confirmed'')] = (Json updated, s')"
    by (simp add: patch_order_def run)
  ultimately show ?thesis
    using keys by (simp add: run)
qed

theorem updateOrder_confirm_changes_status_only_witness:
  "getOrder \<lparr>products = [],
      orders = [(''o1'', [(''customerName'', Str ''Ali''), (''quantity'', Num 2),
                         (''status'', Str ''pending''),
                         (''confirmationScript'', Str ''Hello Ali'')])]\<rparr> ''o1''
     = Some [(''customerName'', Str ''Ali''), (''quantity'', Num 2),
             (''status'', Str ''pending''), (''confirmationScript'', Str ''Hello Ali'')]
   \<and> updateOrder \<lparr>products = [],
      orders = [(''o1'', [(''customerName'', Str ''Ali''), (''quantity'', Num 2),
                         (''status'', Str ''pending''),
                         (''confirmationScript'', Str ''Hello Ali'')])]\<rparr> ''o1''
        [(''status'', Str ''confirmed'')]
     = (Some [(''customerName'', Str ''Ali''), (''quantity'', Num 2),
              (''status'', Str ''confirmed''), (''confirmationScript'', Str ''Hello Ali'')],
        \<lparr>products = [],
         orders = [(''o1'', [(''customerName'', Str ''Ali''), (''quantity'', Num 2),
                            (''status'', Str ''confirmed''),
                            (''confirmationScript'', Str ''Hello Ali'')])]\<rparr>)"
  using updateOrder_confirm_changes_status_only
    [of "\<lparr>products = [],
          orders = [(''o1'', [(''customerName'', Str ''Ali''), (''quantity'', Num 2),
                             (''status'', Str ''pending''),
                             (''confirmationScript'', Str ''Hello Ali'')])]\<rparr>"
        "''o1''"
        "[(''customerName'', Str ''Ali''), (''quantity'', Num 2),
          (''status'', Str ''pending''), (''confirmationScript'', Str ''Hello Ali'')]"]
  by (simp add: getOrder_def get_def updateOrder_def assign_def Let_def)

section \<open>Defaults of a new order\<close>

lemma or_else_falsy: "\<not> truthy a \<Longrightarrow> or_else a b = b"
  by (simp add: or_else_def)

lemma get_createOrder:
  "fst (createOrder s new_id now io) =
     assign io
       [(''id'', Str new_id),
        (''status'', or_else (get io ''status'') (Str ''pending'')),
        (''quantity'', or_else (get io ''quantity'') (Num 1)),
        (''language'', or_else (get io ''language'') (Str ''ar'')),
        (''customerAddress'', or_else (get io ''customerAddress'') Null),
        (''customerCity'', or_else (get io ''customerCity'') Null),
        (''notes'', or_else (get io ''notes'') Null),
        (''confirmationScript'', or_else (get io ''confirmationScript'') Null),
        (''createdAt'', Date now)]"
  by (simp add: createOrder_def Let_def)

lemma createOrder_fields:
  "get (fst (createOrder s new_id now io)) ''status'' = or_else (get io ''status'') (Str ''pending'')"
  "get (fst (createOrder s new_id now io)) ''quantity'' = or_else (get io ''quantity'') (Num 1)"
  "get (fst (createOrder s new_id now io)) ''language'' = or_else (get io ''language'') (Str ''ar'')"
  "get (fst (createOrder s new_id now io)) ''confirmationScript''
     = or_else (get io ''confirmationScript'') Null"
  by (simp_all add: get_createOrder assign_Cons assign_Nil get_update)

lemma createOrder_stored:
  "getOrder (snd (createOrder s new_id now io)) new_id = Some (fst (createOrder s new_id now io))"
  by (simp add: createOrder_def Let_def getOrder_def update_conv')

text \<open>
  C10. \<open>createOrder\<close> replaces every falsy value of \<open>quantity\<close>, \<open>status\<close> and
  \<open>language\<close> by the default, not only the absent value: a falsy quantity (0 among
  them) is stored as 1, a falsy status (the empty string among them) as "pending", a
  falsy language (the empty string among them) as "ar".
\<close>

theorem createOrder_falsy_defaults:
  assumes "createOrder s new_id now io = (order, s')"
  shows "(\<not> truthy (get io ''quantity'') \<longrightarrow> get order ''quantity'' = Num 1)
       \<and> (\<not> truthy (get io ''status'') \<longrightarrow> get order ''status'' = Str ''pending'')
       \<and> (\<not> truthy (get io ''language'') \<longrightarrow> get order ''language'' = Str ''ar'')
       \<and> getOrder s' new_id = Some order"
proof -
  from assms have order: "order = fst (createOrder s new_id now io)"
    and s': "s' = snd (createOrder s new_id now io)"
    by simp_all
  show ?thesis
    unfolding order s'
    by (simp add: createOrder_fields createOrder_stored or_else_falsy)
qed

theorem createOrder_falsy_defaults_witness:
  "get (fst (createOrder empty_store ''o1'' 7
         [(''productId'', Str ''p1''), (''customerName'', Str ''Ali''),
          (''customerPhone'', Str ''555''), (''quantity'', Num 0), (''status'', Str ''''),
          (''language'', Str '''')])) ''quantity'' = Num 1
   \<and> get (fst (createOrder empty_store ''o1'' 7
         [(''productId'', Str ''p1''), (''customerName'', Str ''Ali''),
          (''customerPhone'', Str ''555''), (''quantity'', Num 0), (''status'', Str ''''),
          (''language'', Str '''')])) ''status'' = Str ''pending''
   \<and> get (fst (createOrder empty_store ''o1'' 7
         [(''productId'', Str ''p1''), (''customerName'', Str ''Ali''),
          (''customerPhone'', Str ''555''), (''quantity'', Num 0), (''status'', Str ''''),
          (''language'', Str '''')])) ''language'' = Str ''ar''"
  using createOrder_falsy_defaults
    [of empty_store "''o1''" 7
        "[(''productId'', Str ''p1''), (''customerName'', Str ''Ali''),
          (''customerPhone'', Str ''555''), (''quantity'', Num 0), (''status'', Str ''''),
          (''language'', Str '''')]"
        "fst (createOrder empty_store ''o1'' 7
         [(''productId'', Str ''p1''), (''customerName'', Str ''Ali''),
          (''customerPhone'', Str ''555''), (''quantity'', Num 0), (''status'', Str ''''),
          (''language'', Str '''')])"
        "snd (createOrder empty_store ''o1'' 7
         [(''productId'', Str ''p1''), (''customerName'', Str ''Ali''),
          (''customerPhone'', Str ''555''), (''quantity'', Num 0), (''status'', Str ''''),
          (''language'', Str '''')])"]
  by (simp add: get_def)

section \<open>Benefits and features are never null\<close>

lemma createProduct_fields:
  "get (fst (createProduct s new_id now ip)) ''benefits''
     = or_else (get ip ''benefits'') default_lists"
  "get (fst (createProduct s new_id now ip)) ''features''
     = or_else (get ip ''features'') default_lists"
  "get (fst (createProduct s new_id now ip)) ''createdAt'' = Date now"
  "get (fst (createProduct s new_id now ip)) ''id'' = Str new_id"
  by (simp_all add: createProduct_def Let_def assign_Cons assign_Nil get_update)

lemma createProduct_stored:
  "getProduct (snd (createProduct s new_id now ip)) new_id
     = Some (fst (createProduct s new_id now ip))"
  by (simp add: createProduct_def Let_def getProduct_def update_conv')

lemma updateProduct_Some:
  assumes "getProduct s pid = Some old"
  shows "updateProduct s pid u =
           (Some (assign (assign old u)
                    [(''benefits'', or_else (get u ''benefits'')
                                      (or_else (get old ''benefits'') default_lists)),
                     (''features'', or_else (get u ''features'')
                                      (or_else (get old ''features'') default_lists))]),
            s\<lparr>products := AList.update pid
                 (assign (assign old u)
                    [(''benefits'', or_else (get u ''benefits'')
                                      (or_else (get old ''benefits'') default_lists)),
                     (''features'', or_else (get u ''features'')
                                      (or_else (get old ''features'') default_lists))])
                 (products s)\<rparr>)"
  using assms by (simp add: updateProduct_def getProduct_def Let_def)

lemma updateProduct_fields:
  assumes "getProduct s pid = Some old"
    and "updateProduct s pid u = (Some p, s')"
  shows "get p ''benefits''
           = or_else (get u ''benefits'') (or_else (get old ''benefits'') default_lists)"
    and "get p ''features''
           = or_else (get u ''features'') (or_else (get old ''features'') default_lists)"
    and "getProduct s' pid = Some p"
  using assms(2) unfolding updateProduct_Some [OF assms(1)]
  by (auto simp: assign_Cons assign_Nil get_update getProduct_def update_conv')

lemma is_object_or_else:
  "is_object a \<or> \<not> truthy a \<Longrightarrow> is_object b \<Longrightarrow> is_object (or_else a b)"
  by (auto simp: or_else_def)

lemma is_object_default_lists: "is_object default_lists"
  by (simp add: default_lists_def)

lemma is_object_or_default:
  "is_object a \<or> \<not> truthy a \<Longrightarrow> is_object (or_else a default_lists)"
  by (simp add: is_object_or_else is_object_default_lists)

lemma nullish_falsy: "nullish v \<Longrightarrow> \<not> truthy v"
  by (auto simp: nullish_def)

lemma truthy_not_nullish: "truthy v \<Longrightarrow> v \<noteq> Null \<and> v \<noteq> Undefined"
  by auto

text \<open>
  C9, as amended. The product that \<open>createProduct\<close> stores, and the product that
  \<open>updateProduct\<close> stores for an existing id, have \<open>benefits\<close> and \<open>features\<close> that
  are neither \<open>null\<close> nor \<open>undefined\<close>: both are truthy. The stored value is the
  supplied value when that is truthy. When the supplied value is falsy (null, undefined
  and an absent property among them), an update keeps the value stored before if that
  is truthy and stores the \<open>{ar:[],en:[],fr:[]}\<close> default otherwise, and a creation
  stores the default. The two fields are objects whenever the supplied and the
  previously stored values are objects or falsy values.
\<close>

theorem benefits_features_never_null:
  "(case createProduct s new_id now ip of (p, s') \<Rightarrow>
      getProduct s' new_id = Some p
      \<and> get p ''benefits'' \<noteq> Null \<and> get p ''benefits'' \<noteq> Undefined
      \<and> get p ''features'' \<noteq> Null \<and> get p ''features'' \<noteq> Undefined
      \<and> truthy (get p ''benefits'') \<and> truthy (get p ''features'')
      \<and> get p ''benefits''
          = (if truthy (get ip ''benefits'') then get ip ''benefits'' else default_lists)
      \<and> get p ''features''
          = (if truthy (get ip ''features'') then get ip ''features'' else default_lists)
      \<and> (nullish (get ip ''benefits'') \<longrightarrow> get p ''benefits'' = default_lists)
      \<and> (nullish (get ip ''features'') \<longrightarrow> get p ''features'' = default_lists)
      \<and> (is_object (get ip ''benefits'') \<or> \<not> truthy (get ip ''benefits'')
            \<longrightarrow> is_object (get p ''benefits''))
      \<and> (is_object (get ip ''features'') \<or> \<not> truthy (get ip ''features'')
            \<longrightarrow> is_object (get p ''features'')))
   \<and> (\<forall>old. getProduct s pid = Some old \<longrightarrow>
        (case updateProduct s pid u of
           (None, s') \<Rightarrow> False
         | (Some p, s') \<Rightarrow>
             getProduct s' pid = Some p
             \<and> get p ''benefits'' \<noteq> Null \<and> get p ''benefits'' \<noteq> Undefined
             \<and> get p ''features'' \<noteq> Null \<and> get p ''features'' \<noteq> Undefined
             \<and> truthy (get p ''benefits'') \<and> truthy (get p ''features'')
             \<and> get p ''benefits''
                 = (if truthy (get u ''benefits'') then get u ''benefits''
                    else if truthy (get old ''benefits'') then get old ''benefits''
                    else default_lists)
             \<and> get p ''features''
                 = (if truthy (get u ''features'') then get u ''features''
                    else if truthy (get old ''features'') then get old ''features''
                    else default_lists)
             \<and> (nullish (get u ''benefits'') \<longrightarrow>
                  get p ''benefits''
                    = (if truthy (get old ''benefits'') then get old ''benefits'' else default_lists))
             \<and> (nullish (get u ''features'') \<longrightarrow>
                  get p ''features''
                    = (if truthy (get old ''features'') then get old ''features'' else default_lists))
             \<and> ((is_object (get u ''benefits'') \<or> \<not> truthy (get u ''benefits''))
                  \<and> (is_object (get old ''benefits'') \<or> \<not> truthy (get old ''benefits''))
                    \<longrightarrow> is_object (get p ''benefits''))
             \<and> ((is_object (get u ''features'') \<or> \<not> truthy (get u ''features''))
                  \<and> (is_object (get old ''features'') \<or> \<not> truthy (get old ''features''))
                    \<longrightarrow> is_object (get p ''features''))))"
proof -
  obtain p s' where cp: "createProduct s new_id now ip = (p, s')"
    by (cases "createProduct s new_id now ip")
  then have p: "p = fst (createProduct s new_id now ip)"
    and s': "s' = snd (createProduct s new_id now ip)"
    by simp_all
  have tb: "truthy (get p ''benefits'')" and tf: "truthy (get p ''features'')"
    by (simp_all add: p createProduct_fields truthy_or_else truthy_default_lists)
  have created:
    "getProduct s' new_id = Some p
      \<and> get p ''benefits'' \<noteq> Null \<and> get p ''benefits'' \<noteq> Undefined
      \<and> get p ''features'' \<noteq> Null \<and> get p ''features'' \<noteq> Undefined
      \<and> truthy (get p ''benefits'') \<and> truthy (get p ''features'')
      \<and> get p ''benefits''
          = (if truthy (get ip ''benefits'') then get ip ''benefits'' else default_lists)
      \<and> get p ''features''
          = (if truthy (get ip ''features'') then get ip ''features'' else default_lists)
      \<and> (nullish (get ip ''benefits'') \<longrightarrow> get p ''benefits'' = default_lists)
      \<and> (nullish (get ip ''features'') \<longrightarrow> get p ''features'' = default_lists)
      \<and> (is_object (get ip ''benefits'') \<or> \<not> truthy (get ip ''benefits'')
            \<longrightarrow> is_object (get p ''benefits''))
      \<and> (is_object (get ip ''features'') \<or> \<not> truthy (get ip ''features'')
            \<longrightarrow> is_object (get p ''features''))"
    using truthy_not_nullish [OF tb] truthy_not_nullish [OF tf] tb tf
    by (simp add: p s' createProduct_stored createProduct_fields
          or_else_falsy nullish_falsy is_object_or_default) (simp add: or_else_def)
  have updated:
    "case updateProduct s pid u of
       (None, s') \<Rightarrow> False
     | (Some p, s') \<Rightarrow>
         getProduct s' pid = Some p
         \<and> get p ''benefits'' \<noteq> Null \<and> get p ''benefits'' \<noteq> Undefined
         \<and> get p ''features'' \<noteq> Null \<and> get p ''features'' \<noteq> Undefined
         \<and> truthy (get p ''benefits'') \<and> truthy (get p ''features'')
         \<and> get p ''benefits''
             = (if truthy (get u ''benefits'') then get u ''benefits''
                else if truthy (get old ''benefits'') then get old ''benefits''
                else default_lists)
         \<and> get p ''features''
             = (if truthy (get u ''features'') then get u ''features''
                else if truthy (get old ''features'') then get old ''features''
                else default_lists)
         \<and> (nullish (get u ''benefits'') \<longrightarrow>
              get p ''benefits''
                    = (if truthy (get old ''benefits'') then get old ''benefits'' else default_lists))
         \<and> (nullish (get u ''features'') \<longrightarrow>
              get p ''features''
                    = (if truthy (get old ''features'') then get old ''features'' else default_lists))
         \<and> ((is_object (get u ''benefits'') \<or> \<not> truthy (get u ''benefits''))
              \<and> (is_object (get old ''benefits'') \<or> \<not> truthy (get old ''benefits''))
                \<longrightarrow> is_object (get p ''benefits''))
         \<and> ((is_object (get u ''features'') \<or> \<not> truthy (get u ''features''))
              \<and> (is_object (get old ''features'') \<or> \<not> truthy (get old ''features''))
                \<longrightarrow> is_object (get p ''features''))"
    if old: "getProduct s pid = Some old" for old
  proof -
    obtain q t where up: "updateProduct s pid u = (Some q, t)"
      using updateProduct_Some [OF old] by simp
    note f = updateProduct_fields [OF old up]
    have qb: "truthy (get q ''benefits'')" and qf: "truthy (get q ''features'')"
      by (simp_all add: f truthy_or_else truthy_default_lists)
    have nb: "get q ''benefits'' \<noteq> Null" "get q ''benefits'' \<noteq> Undefined"
      and nf: "get q ''features'' \<noteq> Null" "get q ''features'' \<noteq> Undefined"
      using truthy_not_nullish [OF qb] truthy_not_nullish [OF qf] by simp_all
    have vb: "get q ''benefits''
                = (if truthy (get u ''benefits'') then get u ''benefits''
                   else if truthy (get old ''benefits'') then get old ''benefits''
                   else default_lists)"
      and vf: "get q ''features''
                = (if truthy (get u ''features'') then get u ''features''
                   else if truthy (get old ''features'') then get old ''features''
                   else default_lists)"
      by (simp_all add: f or_else_def)
    have kb: "nullish (get u ''benefits'') \<longrightarrow>
                get q ''benefits''
                  = (if truthy (get old ''benefits'') then get old ''benefits'' else default_lists)"
      and kf: "nullish (get u ''features'') \<longrightarrow>
                get q ''features''
                  = (if truthy (get old ''features'') then get old ''features'' else default_lists)"
      by (auto simp: vb vf dest: nullish_falsy)
    have ob: "(is_object (get u ''benefits'') \<or> \<not> truthy (get u ''benefits''))
                \<and> (is_object (get old ''benefits'') \<or> \<not> truthy (get old ''benefits''))
              \<longrightarrow> is_object (get q ''benefits'')"
      by (simp add: f(1) is_object_or_else is_object_or_default)
    have of: "(is_object (get u ''features'') \<or> \<not> truthy (get u ''features''))
                \<and> (is_object (get old ''features'') \<or> \<not> truthy (get old ''features''))
              \<longrightarrow> is_object (get q ''features'')"
      by (simp add: f(2) is_object_or_else is_object_or_default)
    show ?thesis
      by (simp only: up prod.case option.case)
         (intro conjI; (fact f(3) nb nf qb qf vb vf kb kf ob of))
  qed
  show ?thesis
    by (simp only: cp prod.case) (rule conjI [OF created], intro allI impI, erule updated)
qed

theorem benefits_features_never_null_witness:
  "getProduct
     (snd (createProduct empty_store ''p1'' 5
        [(''name'', Str ''Chair''),
         (''benefits'', Obj [(''ar'', Arr []), (''en'', Arr [Str ''Solid'']), (''fr'', Arr [])])]))
     ''p1''
     = Some [(''name'', Str ''Chair''),
             (''benefits'', Obj [(''ar'', Arr []), (''en'', Arr [Str ''Solid'']), (''fr'', Arr [])]),
             (''id'', Str ''p1''), (''price'', Null), (''category'', Null),
             (''features'', default_lists), (''createdAt'', Date 5)]
   \<and> get (the (fst (updateProduct
         (snd (createProduct empty_store ''p1'' 5
            [(''name'', Str ''Chair''),
             (''benefits'',
                Obj [(''ar'', Arr []), (''en'', Arr [Str ''Solid'']), (''fr'', Arr [])])]))
         ''p1'' [(''benefits'', Null), (''name'', Str ''Stool'')]))) ''benefits''
     = Obj [(''ar'', Arr []), (''en'', Arr [Str ''Solid'']), (''fr'', Arr [])]
   \<and> get (the (fst (updateProduct
         (snd (createProduct empty_store ''p1'' 5
            [(''name'', Str ''Chair''),
             (''benefits'',
                Obj [(''ar'', Arr []), (''en'', Arr [Str ''Solid'']), (''fr'', Arr [])])]))
         ''p1'' [(''benefits'', Null), (''name'', Str ''Stool'')]))) ''features''
     = default_lists"
  using benefits_features_never_null
    [where s = "snd (createProduct empty_store ''p1'' 5
            [(''name'', Str ''Chair''),
             (''benefits'',
                Obj [(''ar'', Arr []), (''en'', Arr [Str ''Solid'']), (''fr'', Arr [])])])"
       and new_id = "''p2''" and now = 6 and ip = "[(''name'', Str ''Table'')]"
       and pid = "''p1''" and u = "[(''benefits'', Null), (''name'', Str ''Stool'')]"]
  by (simp add: createProduct_def updateProduct_def getProduct_def empty_store_def Let_def
        assign_def get_def or_else_def coalesce_def nullish_def default_lists_def)

text \<open>An update that supplies a string for \<open>benefits\<close>: the string is stored.\<close>

theorem benefits_string_stored_counterexample:
  "updateProduct chair_store ''p1'' [(''benefits'', Str ''soft'')]
     = (Some [(''name'', Str ''Chair''),
              (''imageUrl'', Str ''/uploads/chair.png''),
              (''descriptions'',
                 Obj [(''ar'', Str ''Kursi khashabi''), (''en'', Str ''A wooden chair''),
                      (''fr'', Str ''Une chaise en bois'')]),
              (''benefits'', Str ''soft''),
              (''features'', default_lists),
              (''price'', Str ''$50''),
              (''category'', Null),
              (''id'', Str ''p1''),
              (''createdAt'', Date 5)],
        \<lparr>products =
           [(''p1'',
             [(''name'', Str ''Chair''),
              (''imageUrl'', Str ''/uploads/chair.png''),
              (''descriptions'',
                 Obj [(''ar'', Str ''Kursi khashabi''), (''en'', Str ''A wooden chair''),
                      (''fr'', Str ''Une chaise en bois'')]),
              (''benefits'', Str ''soft''),
              (''features'', default_lists),
              (''price'', Str ''$50''),
              (''category'', Null),
              (''id'', Str ''p1''),
              (''createdAt'', Date 5)])],
         orders = []\<rparr>)
   \<and> \<not> is_object (Str ''soft'')"
  by (simp add: updateProduct_def chair_store_def chair_def Let_def assign_def get_def
        or_else_def default_lists_def)

section \<open>Listing products\<close>

lemma set_update_cases:
  "(k', v') \<in> set (AList.update k v al) \<Longrightarrow> (k', v') = (k, v) \<or> (k', v') \<in> set al"
  by (induction al) (auto split: if_splits)

lemma products_empty_store: "products empty_store = []"
  by (simp add: empty_store_def)

lemma snd_createProduct:
  "snd (createProduct s new_id now p)
     = s\<lparr>products := AList.update new_id (fst (createProduct s new_id now p)) (products s)\<rparr>"
  by (simp add: createProduct_def Let_def)

lemma fst_createProduct_any_store:
  "fst (createProduct s new_id now p) = fst (createProduct empty_store new_id now p)"
  by (simp add: createProduct_def Let_def)

lemma created_ms_createProduct: "created_ms (fst (createProduct s new_id now p)) = now"
  by (simp add: created_ms_def createProduct_fields)

lemma create_all_snoc:
  "create_all s (cs @ [(new_id, now, p)]) = snd (createProduct (create_all s cs) new_id now p)"
  by (simp add: create_all_def run_ops_def)

lemma create_all_dated:
  "(k, q) \<in> set (products (create_all empty_store cs)) \<Longrightarrow> \<exists>t. get q ''createdAt'' = Date t"
proof (induction cs arbitrary: k q rule: rev_induct)
  case Nil
  then show ?case by (simp add: create_all_def run_ops_def empty_store_def)
next
  case (snoc c cs)
  obtain new_id now p where c: "c = (new_id, now, p)" by (cases c)
  from snoc.prems have
    "(k, q) = (new_id, fst (createProduct (create_all empty_store cs) new_id now p))
       \<or> (k, q) \<in> set (products (create_all empty_store cs))"
    by (auto simp: c create_all_snoc snd_createProduct dest: set_update_cases)
  then show ?case
  proof
    assume "(k, q) = (new_id, fst (createProduct (create_all empty_store cs) new_id now p))"
    then show ?thesis by (simp add: createProduct_fields)
  next
    assume "(k, q) \<in> set (products (create_all empty_store cs))"
    then show ?thesis by (rule snoc.IH)
  qed
qed

lemma getProducts_Some:
  assumes "\<And>k q. (k, q) \<in> set (products s) \<Longrightarrow> \<exists>t. get q ''createdAt'' = Date t"
  shows "getProducts s = Some (sort_key (\<lambda>p. - created_ms p) (map snd (products s)))"
proof -
  have "list_all (\<lambda>p. getTime (get p ''createdAt'') \<noteq> None) (map snd (products s))"
    using assms by (fastforce simp: list_all_iff)
  then show ?thesis
    by (simp add: getProducts_def Let_def)
qed

lemma newest_first_sort_key:
  "sorted_wrt (\<lambda>p q. created_ms q \<le> created_ms p) (sort_key (\<lambda>p. - created_ms p) ps)"
proof -
  have "sorted (map (\<lambda>p. - created_ms p) (sort_key (\<lambda>p. - created_ms p) ps))"
    by (rule sorted_sort_key)
  then show ?thesis
    by (simp add: sorted_map)
qed

lemma update_fresh: "k \<notin> fst ` set al \<Longrightarrow> AList.update k v al = al @ [(k, v)]"
  by (induction al) auto

lemma products_create_all:
  "distinct (map fst cs) \<Longrightarrow>
     products (create_all empty_store cs)
       = map (\<lambda>(new_id, now, p). (new_id, fst (createProduct empty_store new_id now p))) cs"
proof (induction cs rule: rev_induct)
  case Nil
  then show ?case by (simp add: create_all_def run_ops_def empty_store_def)
next
  case (snoc c cs)
  obtain new_id now p where c: "c = (new_id, now, p)" by (cases c)
  from snoc.prems have d: "distinct (map fst cs)" and fresh: "new_id \<notin> fst ` set cs"
    by (simp_all add: c)
  note IH = snoc.IH [OF d]
  have "new_id \<notin> fst ` set (products (create_all empty_store cs))"
    using fresh by (force simp: IH image_iff)
  then show ?case
    by (simp add: c create_all_snoc snd_createProduct update_fresh IH
          fst_createProduct_any_store [of "create_all empty_store cs"])
qed

lemma created_in_order:
  "distinct (map fst cs) \<Longrightarrow>
     map snd (products (create_all empty_store cs))
       = map (\<lambda>(new_id, now, p). fst (createProduct empty_store new_id now p)) cs"
  by (simp add: products_create_all case_prod_beta comp_def)

lemma sort_key_newest_stable:
  "filter (\<lambda>p. created_ms p = t) (sort_key (\<lambda>p. - created_ms p) ps)
     = filter (\<lambda>p. created_ms p = t) ps"
  using sort_key_stable [of "\<lambda>p. - created_ms p" "- t" ps] by simp

text \<open>
  C4, as amended. After every sequence of product creations, \<open>getProducts\<close> returns all
  stored products, each once, sorted by \<open>createdAt\<close> descending; the products with one
  and the same \<open>createdAt\<close> come in the order in which the product map holds them,
  which is the order of their creation when the ids are distinct. Inserting A, then B,
  then C under distinct ids yields C, B, A when the three clock readings strictly
  increase, and A, B, C when the three readings are equal.
\<close>

theorem getProducts_newest_first:
  "(case getProducts (create_all empty_store cs) of
      None \<Rightarrow> False
    | Some ps \<Rightarrow>
        mset ps = mset (map snd (products (create_all empty_store cs)))
        \<and> sorted_wrt (\<lambda>p q. created_ms q \<le> created_ms p) ps
        \<and> filter (\<lambda>p. created_ms p = t) ps
            = filter (\<lambda>p. created_ms p = t) (map snd (products (create_all empty_store cs))))
   \<and> (distinct (map fst cs) \<longrightarrow>
        map snd (products (create_all empty_store cs))
          = map (\<lambda>(new_id, now, p). fst (createProduct empty_store new_id now p)) cs)
   \<and> (a \<noteq> b \<and> a \<noteq> c \<and> b \<noteq> c \<and> ta < tb \<and> tb < tc \<longrightarrow>
        getProducts (create_all empty_store [(a, ta, A), (b, tb, B), (c, tc, C)])
          = Some [fst (createProduct empty_store c tc C),
                  fst (createProduct empty_store b tb B),
                  fst (createProduct empty_store a ta A)])
   \<and> (a \<noteq> b \<and> a \<noteq> c \<and> b \<noteq> c \<longrightarrow>
        getProducts (create_all empty_store [(a, ta, A), (b, ta, B), (c, ta, C)])
          = Some [fst (createProduct empty_store a ta A),
                  fst (createProduct empty_store b ta B),
                  fst (createProduct empty_store c ta C)])"
proof -
  have all: "getProducts (create_all empty_store cs)
               = Some (sort_key (\<lambda>p. - created_ms p) (map snd (products (create_all empty_store cs))))"
    for cs
    by (rule getProducts_Some) (rule create_all_dated)
  have three: "getProducts (create_all empty_store [(a, ta, A), (b, tb, B), (c, tc, C)])
          = Some (sort_key (\<lambda>p. - created_ms p)
                   [fst (createProduct empty_store a ta A),
                    fst (createProduct empty_store b tb B),
                    fst (createProduct empty_store c tc C)])"
    if d: "a \<noteq> b" "a \<noteq> c" "b \<noteq> c" for ta tb tc
    using d by (simp add: all created_in_order)
  have rising: "getProducts (create_all empty_store [(a, ta, A), (b, tb, B), (c, tc, C)])
          = Some [fst (createProduct empty_store c tc C),
                  fst (createProduct empty_store b tb B),
                  fst (createProduct empty_store a ta A)]"
    if d: "a \<noteq> b" "a \<noteq> c" "b \<noteq> c" and t: "ta < tb" "tb < tc"
    using t by (simp add: three [OF d] created_ms_createProduct)
  have tie: "getProducts (create_all empty_store [(a, ta, A), (b, ta, B), (c, ta, C)])
          = Some [fst (createProduct empty_store a ta A),
                  fst (createProduct empty_store b ta B),
                  fst (createProduct empty_store c ta C)]"
    if d: "a \<noteq> b" "a \<noteq> c" "b \<noteq> c"
    by (simp add: three [OF d] created_ms_createProduct)
  show ?thesis
    using rising tie
    by (simp add: all newest_first_sort_key sort_key_newest_stable created_in_order)
qed

theorem getProducts_newest_first_witness:
  "getProducts (create_all empty_store
       [(''a'', 10, [(''name'', Str ''A'')]), (''b'', 20, [(''name'', Str ''B'')]),
        (''c'', 30, [(''name'', Str ''C'')])])
     = Some [[(''name'', Str ''C''), (''id'', Str ''c''), (''price'', Null), (''category'', Null),
              (''benefits'', default_lists), (''features'', default_lists),
              (''createdAt'', Date 30)],
             [(''name'', Str ''B''), (''id'', Str ''b''), (''price'', Null), (''category'', Null),
              (''benefits'', default_lists), (''features'', default_lists),
              (''createdAt'', Date 20)],
             [(''name'', Str ''A''), (''id'', Str ''a''), (''price'', Null), (''category'', Null),
              (''benefits'', default_lists), (''features'', default_lists),
              (''createdAt'', Date 10)]]
   \<and> getProducts (create_all empty_store
       [(''a'', 10, [(''name'', Str ''A'')]), (''b'', 10, [(''name'', Str ''B'')]),
        (''c'', 10, [(''name'', Str ''C'')])])
     = Some [[(''name'', Str ''A''), (''id'', Str ''a''), (''price'', Null), (''category'', Null),
              (''benefits'', default_lists), (''features'', default_lists),
              (''createdAt'', Date 10)],
             [(''name'', Str ''B''), (''id'', Str ''b''), (''price'', Null), (''category'', Null),
              (''benefits'', default_lists), (''features'', default_lists),
              (''createdAt'', Date 10)],
             [(''name'', Str ''C''), (''id'', Str ''c''), (''price'', Null), (''category'', Null),
              (''benefits'', default_lists), (''features'', default_lists),
              (''createdAt'', Date 10)]]"
  using getProducts_newest_first
    [where cs = "[(''a'', 10, [(''name'', Str ''A'')]), (''b'', 20, [(''name'', Str ''B'')]),
                  (''c'', 30, [(''name'', Str ''C'')])]"
       and t = 20
       and a = "''a''" and b = "''b''" and c = "''c''"
       and ta = 10 and tb = 20 and tc = 30
       and A = "[(''name'', Str ''A'')]" and B = "[(''name'', Str ''B'')]"
       and C = "[(''name'', Str ''C'')]"]
  by (simp add: createProduct_def Let_def assign_def get_def or_else_def coalesce_def
        nullish_def empty_store_def)

text \<open>
  Three creations within one millisecond: the comparator returns 0 for every pair and
  the stable sort keeps the insertion order A, B, C.
\<close>

theorem getProducts_same_millisecond_counterexample:
  "getProducts (create_all empty_store
       [(''a'', 10, [(''name'', Str ''A'')]), (''b'', 10, [(''name'', Str ''B'')]),
        (''c'', 10, [(''name'', Str ''C'')])])
     = Some [[(''name'', Str ''A''), (''id'', Str ''a''), (''price'', Null), (''category'', Null),
              (''benefits'', default_lists), (''features'', default_lists),
              (''createdAt'', Date 10)],
             [(''name'', Str ''B''), (''id'', Str ''b''), (''price'', Null), (''category'', Null),
              (''benefits'', default_lists), (''features'', default_lists),
              (''createdAt'', Date 10)],
             [(''name'', Str ''C''), (''id'', Str ''c''), (''price'', Null), (''category'', Null),
              (''benefits'', default_lists), (''features'', default_lists),
              (''createdAt'', Date 10)]]"
  by (simp add: getProducts_def create_all_def run_ops_def createProduct_def Let_def
        assign_def get_def or_else_def coalesce_def nullish_def empty_store_def created_ms_def)

section \<open>Templates and trimming\<close>

lemma template_Inr: "template (Inr s # ps) = and_then (template ps) (\<lambda>r. Inr (s @ r))"
  by (simp add: and_then_def)

lemma template_Inl: "template (Inl e # ps) = Inl e"
  by simp

lemma template_append:
  "template (ps @ qs) = and_then (template ps) (\<lambda>a. and_then (template qs) (\<lambda>b. Inr (a @ b)))"
  by (induction ps) (auto simp: and_then_def split: sum.splits)

lemma find_Some_holds: "find P xs = Some x \<Longrightarrow> x \<in> set xs \<and> P x"
  by (induction xs) (auto split: if_splits)

lemma strip_Nil: "strip pats [] = []"
proof -
  have "find (\<lambda>w. w \<noteq> [] \<and> prefix w []) pats = None"
    by (simp add: find_None_iff)
  then show ?thesis
    by (subst strip.simps) simp
qed

lemma strip_keep:
  assumes "\<And>w. w \<in> set pats \<Longrightarrow> w \<noteq> [] \<Longrightarrow> hd w \<noteq> c"
  shows "strip pats (c # s) = c # s"
proof -
  have "\<not> (w \<noteq> [] \<and> prefix w (c # s))" if "w \<in> set pats" for w
    using assms [OF that] by (cases w) auto
  then have "find (\<lambda>w. w \<noteq> [] \<and> prefix w (c # s)) pats = None"
    by (simp add: find_None_iff)
  then show ?thesis
    by (subst strip.simps) simp
qed

lemma strip_drop_char:
  assumes "[c] \<in> set pats"
    and "\<And>w. w \<in> set pats \<Longrightarrow> w \<noteq> [] \<Longrightarrow> hd w = c \<Longrightarrow> w = [c]"
  shows "strip pats (c # s) = strip pats s"
proof -
  obtain w where w: "find (\<lambda>w. w \<noteq> [] \<and> prefix w (c # s)) pats = Some w"
    using assms(1) by (cases "find (\<lambda>w. w \<noteq> [] \<and> prefix w (c # s)) pats") (auto simp: find_None_iff)
  then have found: "w \<in> set pats" "w \<noteq> []" "prefix w (c # s)"
    by (auto dest: find_Some_holds)
  have "hd w = c"
  proof (cases w)
    case Nil
    with found(2) show ?thesis by simp
  next
    case (Cons x xs)
    with found(3) show ?thesis by simp
  qed
  with found have "w = [c]"
    by (simp add: assms(2))
  with w show ?thesis
    by (subst strip.simps) simp
qed

lemma ws_LF: "strip js_whitespace (CHR 0x0A # s) = strip js_whitespace s"
  by (rule strip_drop_char) (auto simp: js_whitespace_def)

lemma ws_space: "strip js_whitespace (CHR 0x20 # s) = strip js_whitespace s"
  by (rule strip_drop_char) (auto simp: js_whitespace_def)

lemma rws_LF: "strip (map rev js_whitespace) (CHR 0x0A # s) = strip (map rev js_whitespace) s"
  by (rule strip_drop_char) (auto simp: js_whitespace_def)

lemma rws_space: "strip (map rev js_whitespace) (CHR 0x20 # s) = strip (map rev js_whitespace) s"
  by (rule strip_drop_char) (auto simp: js_whitespace_def)

lemma keep_first: "a \<notin> set (map hd js_whitespace) \<Longrightarrow> strip js_whitespace (a # s) = a # s"
  by (rule strip_keep) auto

lemma keep_last:
  "b \<notin> set (map last js_whitespace) \<Longrightarrow> strip (map rev js_whitespace) (b # s) = b # s"
  by (rule strip_keep) (auto simp: hd_rev)

lemma trim_framed:
  assumes "a \<notin> set (map hd js_whitespace)" and "b \<notin> set (map last js_whitespace)"
  shows "trim (CHR 0x0A # a # m @ b # CHR 0x0A # replicate n (CHR 0x20)) = a # m @ [b]"
proof -
  have sp: "strip (map rev js_whitespace) (replicate n (CHR 0x20) @ t)
              = strip (map rev js_whitespace) t" for t
    by (induction n) (simp_all add: rws_space)
  have "strip js_whitespace (CHR 0x0A # a # m @ b # CHR 0x0A # replicate n (CHR 0x20))
          = a # m @ b # CHR 0x0A # replicate n (CHR 0x20)"
    by (simp add: ws_LF keep_first [OF assms(1)])
  moreover have "rev (a # m @ b # CHR 0x0A # replicate n (CHR 0x20))
          = replicate n (CHR 0x20) @ CHR 0x0A # b # rev m @ [a]"
    by simp
  ultimately show ?thesis
    by (simp add: trim_def sp rws_LF keep_last [OF assms(2)])
qed


lemma strip_keeps_last:
  assumes "\<And>w. w \<in> set pats \<Longrightarrow> w \<noteq> [] \<Longrightarrow> last w \<noteq> a"
  shows "strip pats (xs @ [a]) \<noteq> []"
proof (induction "length xs" arbitrary: xs rule: less_induct)
  case less
  show ?case
  proof (cases "find (\<lambda>w. w \<noteq> [] \<and> prefix w (xs @ [a])) pats")
    case None
    then show ?thesis by (subst strip.simps) simp
  next
    case (Some w)
    then have found: "w \<in> set pats" "w \<noteq> []" "prefix w (xs @ [a])"
      by (auto dest: find_Some_holds)
    from found(3) have "prefix w xs \<or> w = xs @ [a]"
      by (auto simp: prefix_snoc)
    with assms [OF found(1,2)] have pre: "prefix w xs"
      by auto
    then obtain ys where xs: "xs = w @ ys"
      by (auto simp: prefix_def)
    with found(2) have "length ys < length xs"
      by simp
    then have "strip pats (ys @ [a]) \<noteq> []"
      by (rule less)
    with Some xs show ?thesis
      by (subst strip.simps) simp
  qed
qed

lemma trim_nonempty:
  assumes "a \<notin> set (map hd js_whitespace)"
  shows "trim (CHR 0x0A # a # s) \<noteq> []"
proof -
  have "strip js_whitespace (CHR 0x0A # a # s) = a # s"
    by (simp add: ws_LF keep_first [OF assms])
  moreover have "strip (map rev js_whitespace) (rev s @ [a]) \<noteq> []"
    using assms by (intro strip_keeps_last) (auto simp: last_rev)
  ultimately show ?thesis
    by (simp add: trim_def)
qed

lemma sublist_across:
  assumes "c \<notin> set p"
  shows "sublist p (xs @ c # ys) \<longleftrightarrow> sublist p xs \<or> sublist p ys"
proof
  assume "sublist p (xs @ c # ys)"
  then consider "sublist p xs" | "sublist p (c # ys)"
    | p1 p2 where "p = p1 @ p2" "suffix p1 xs" "prefix p2 (c # ys)"
    by (auto simp: sublist_append)
  then show "sublist p xs \<or> sublist p ys"
  proof cases
    case 1
    then show ?thesis by simp
  next
    case 2
    then have "prefix p (c # ys) \<or> sublist p ys"
      by (simp add: sublist_Cons_right)
    moreover have "p = []" if "prefix p (c # ys)"
      using that assms by (cases p) auto
    ultimately show ?thesis by auto
  next
    case 3
    have "p2 = []"
      using 3(1,3) assms by (cases p2) auto
    with 3 show ?thesis
      by (auto simp: suffix_imp_sublist)
  qed
next
  assume "sublist p xs \<or> sublist p ys"
  then show "sublist p (xs @ c # ys)"
    by (auto simp: sublist_append sublist_Cons_right)
qed

lemma script_en_nonempty: "script_en product customer = Inr s \<Longrightarrow> s \<noteq> []"
  by (auto simp: script_en_def template_Inr and_then_def trim_nonempty js_whitespace_def
        split: sum.splits)

lemma script_fr_nonempty: "script_fr product customer = Inr s \<Longrightarrow> s \<noteq> []"
  by (auto simp: script_fr_def template_Inr and_then_def trim_nonempty js_whitespace_def
        split: sum.splits)

lemma script_ar_nonempty: "script_ar product customer = Inr s \<Longrightarrow> s \<noteq> []"
  by (auto simp: script_ar_def template_Inr and_then_def trim_nonempty js_whitespace_def
        split: sum.splits)

section \<open>Orders created through the endpoint\<close>

lemma and_then_Inr: "and_then m f = Inr v \<Longrightarrow> \<exists>x. m = Inr x \<and> f x = Inr v"
  by (cases m) (simp_all add: and_then_def)

lemma generate_supported:
  assumes "generateConfirmationScript product customer lang = Inr v"
    and "lang = Str ''ar'' \<or> lang = Str ''en'' \<or> lang = Str ''fr''"
  shows "\<exists>script. v = Str script \<and> script \<noteq> []"
proof -
  from assms(1) obtain ar en fr key where
    ar: "script_ar product customer = Inr ar" and
    en: "script_en product customer = Inr en" and
    fr: "script_fr product customer = Inr fr" and
    key: "to_string lang = Inr key" and
    v: "get_prop (Obj [(''ar'', Str ar), (''en'', Str en), (''fr'', Str fr)]) key = Inr v"
    unfolding generateConfirmationScript_def
    by (blast dest: and_then_Inr)
  from assms(2) key v have "v = Str ar \<or> v = Str en \<or> v = Str fr"
    by auto
  with script_ar_nonempty [OF ar] script_en_nonempty [OF en] script_fr_nonempty [OF fr]
  show ?thesis by auto
qed

text \<open>
  C3, as amended. For every order created through \<open>POST /api/orders\<close> (the referenced
  product then exists in the store) with a language that is omitted, falsy or one of
  ar, en, fr, the returned and stored order has status "pending" and a
  \<open>confirmationScript\<close> that is a non-empty string.
\<close>

theorem post_orders_pending_with_script:
  assumes "post_orders s new_id now body = Some (Json order, s')"
    and "\<not> truthy (get body ''language'') \<or> get body ''language'' = Str ''ar''
         \<or> get body ''language'' = Str ''en'' \<or> get body ''language'' = Str ''fr''"
  shows "get order ''status'' = Str ''pending''
       \<and> (\<exists>script. get order ''confirmationScript'' = Str script \<and> script \<noteq> [])
       \<and> getOrder s' new_id = Some order
       \<and> (\<exists>pid. get body ''productId'' = Str pid \<and> getProduct s pid \<noteq> None)"
proof -
  define customer where "customer =
    [(''customerName'', get body ''customerName''),
     (''customerPhone'', get body ''customerPhone''),
     (''customerAddress'', get body ''customerAddress''),
     (''customerCity'', get body ''customerCity''),
     (''quantity'', or_else (get body ''quantity'') (Num 1))]"
  define lang where "lang = or_else (get body ''language'') (Str ''ar'')"
  define input where "input = (\<lambda>confirmationScript.
    [(''productId'', get body ''productId''),
     (''customerName'', get body ''customerName''),
     (''customerPhone'', get body ''customerPhone''),
     (''customerAddress'', get body ''customerAddress''),
     (''customerCity'', get body ''customerCity''),
     (''notes'', get body ''notes''),
     (''quantity'', or_else (get body ''quantity'') (Num 1)),
     (''status'', Str ''pending''),
     (''language'', lang),
     (''confirmationScript'', confirmationScript)])"
  from assms(1) obtain pid product v where
    pid: "get body ''productId'' = Str pid" and
    product: "getProduct s pid = Some product" and
    gen: "generateConfirmationScript product customer lang = Inr v" and
    created: "createOrder s new_id now (input v) = (order, s')"
    unfolding post_orders_def Let_def customer_def lang_def input_def
    by (auto split: if_splits option.splits sum.splits failure.splits jsval.splits prod.splits)
  from assms(2) have "lang = Str ''ar'' \<or> lang = Str ''en'' \<or> lang = Str ''fr''"
    by (auto simp: lang_def or_else_def)
  with gen obtain script where script: "v = Str script" "script \<noteq> []"
    by (blast dest: generate_supported)
  from created have order: "order = fst (createOrder s new_id now (input v))"
    and s': "s' = snd (createOrder s new_id now (input v))"
    by simp_all
  have "get order ''status'' = Str ''pending''"
    by (simp add: order createOrder_fields) (simp add: input_def get_def or_else_def)
  moreover have "get order ''confirmationScript'' = Str script"
    using script
    by (simp add: order createOrder_fields) (simp add: input_def get_def or_else_def)
  moreover have "getOrder s' new_id = Some order"
    by (simp add: order s' createOrder_stored)
  ultimately show ?thesis
    using script(2) pid product by simp
qed

section \<open>The confirmation script of the example\<close>

lemma decimal_digit: "n < 10 \<Longrightarrow> decimal n = [''0123456789'' ! n]"
  by (subst decimal.simps) simp

lemma sublist_framed:
  assumes "c \<notin> set p"
  shows "sublist p (xs @ c # d @ c # ys) \<longleftrightarrow> sublist p xs \<or> sublist p d \<or> sublist p ys"
  by (simp add: sublist_across [OF assms])

lemma chair_script_en:
  assumes "get product ''name'' = Str ''Chair''"
    and "get product ''price'' = Str ''$50''"
    and "get_prop (get product ''descriptions'') ''en'' = Inr (Str d_en)"
    and "get customer ''customerName'' = Str ''Ali''"
    and "get customer ''quantity'' = Num 2"
    and "get customer ''customerAddress'' = Undefined"
    and "get customer ''customerCity'' = Undefined"
  shows "script_en product customer = Inr (chair_script d_en)"
proof -
  have "trim (CHR 0x0A # CHR ''H'' #
          (''ello Ali,\<newline>\<newline>Thank you for your interest in our product.\<newline>\<newline>'' @
           ''Order Details:\<newline>Product: Chair\<newline>Quantity: 2\<newline>Price: $50\<newline>\<newline>'' @
           ''Product Description:\<newline>'' @ d_en @ ''\<newline>\<newline>\<newline>\<newline>\<newline>'' @
           ''Do you confirm this order?\<newline>\<newline>We look forward to your response.\<newline>'' @
           ''Thank you for your trust'') @ CHR ''.'' # CHR 0x0A # replicate 4 (CHR 0x20))
        = CHR ''H'' #
          (''ello Ali,\<newline>\<newline>Thank you for your interest in our product.\<newline>\<newline>'' @
           ''Order Details:\<newline>Product: Chair\<newline>Quantity: 2\<newline>Price: $50\<newline>\<newline>'' @
           ''Product Description:\<newline>'' @ d_en @ ''\<newline>\<newline>\<newline>\<newline>\<newline>'' @
           ''Do you confirm this order?\<newline>\<newline>We look forward to your response.\<newline>'' @
           ''Thank you for your trust'') @ [CHR ''.'']"
    by (rule trim_framed) (simp_all add: js_whitespace_def)
  then show ?thesis
    by (simp add: script_en_def assms and_then_def number_string_def decimal_digit
          chair_script_def numeral_eq_Suc)
qed

lemma chair_script_contains:
  "sublist ''Chair'' (chair_script d)" "sublist ''$50'' (chair_script d)"
  "sublist ''Ali'' (chair_script d)" "sublist ''2'' (chair_script d)"
proof -
  have split: "chair_script d =
     (''Hello Ali,\<newline>\<newline>Thank you for your interest in our product.\<newline>\<newline>'' @
      ''Order Details:\<newline>Product: Chair\<newline>Quantity: 2\<newline>Price: $50\<newline>'') @
     (''\<newline>Product Description:\<newline>'' @ d @ ''\<newline>\<newline>\<newline>\<newline>\<newline>'' @
      ''Do you confirm this order?\<newline>\<newline>We look forward to your response.\<newline>'' @
      ''Thank you for your trust.'')"
    by (simp add: chair_script_def)
  show "sublist ''Chair'' (chair_script d)" "sublist ''$50'' (chair_script d)"
    "sublist ''Ali'' (chair_script d)" "sublist ''2'' (chair_script d)"
    unfolding split sublist_append
    by (simp_all add: sublist_code)
qed

lemma chair_script_only_from_description:
  assumes "CHR 0x0A \<notin> set p" and "p = ''555'' \<or> p = ''City:'' \<or> p = ''Address:''"
  shows "sublist p (chair_script d) \<longleftrightarrow> sublist p d"
proof -
  have split: "chair_script d =
     (''Hello Ali,\<newline>\<newline>Thank you for your interest in our product.\<newline>\<newline>'' @
      ''Order Details:\<newline>Product: Chair\<newline>Quantity: 2\<newline>Price: $50\<newline>\<newline>'' @
      ''Product Description:'') @ CHR 0x0A # d @ CHR 0x0A #
     (''\<newline>\<newline>\<newline>\<newline>'' @
      ''Do you confirm this order?\<newline>\<newline>We look forward to your response.\<newline>'' @
      ''Thank you for your trust.'')"
    by (simp add: chair_script_def)
  from assms(2) show ?thesis
    unfolding split sublist_framed [OF assms(1)]
    by (auto simp: sublist_code)
qed

section \<open>The example order\<close>

lemma chair_scripts_succeed:
  "\<exists>t. script_ar chair ali = Inr t" "\<exists>t. script_fr chair ali = Inr t"
  by (simp_all add: script_ar_def script_fr_def chair_def ali_def get_def and_then_def
        number_string_def decimal_digit)

lemma chair_script_en_example: "script_en chair ali = Inr (chair_script ''A wooden chair'')"
  by (rule chair_script_en) (simp_all add: chair_def ali_def get_def)

lemma generate_chair:
  assumes "script_ar product customer = Inr ar"
    and "script_en product customer = Inr en"
    and "script_fr product customer = Inr fr"
  shows "generateConfirmationScript product customer (Str ''en'') = Inr (Str en)"
    and "generateConfirmationScript product customer (Str ''de'') = Inr Undefined"
  by (simp_all add: generateConfirmationScript_def assms and_then_def object_prototype_keys_def)

text \<open>
  A request whose language is not one of the three codes: \<open>scripts["de"]\<close> is
  \<open>undefined\<close>, and the order is created with \<open>confirmationScript\<close> null.
\<close>

theorem post_orders_unsupported_language_counterexample:
  "post_orders chair_store ''o1'' 7
      [(''productId'', Str ''p1''), (''customerName'', Str ''Ali''),
       (''customerPhone'', Str ''555''), (''quantity'', Num 2), (''language'', Str ''de'')]
   = Some (Json [(''productId'', Str ''p1''), (''customerName'', Str ''Ali''),
                 (''customerPhone'', Str ''555''), (''customerAddress'', Null),
                 (''customerCity'', Null), (''notes'', Null), (''quantity'', Num 2),
                 (''status'', Str ''pending''), (''language'', Str ''de''),
                 (''confirmationScript'', Null), (''id'', Str ''o1''),
                 (''createdAt'', Date 7)],
           \<lparr>products = [(''p1'', chair)],
              orders = [(''o1'',
                [(''productId'', Str ''p1''), (''customerName'', Str ''Ali''),
                 (''customerPhone'', Str ''555''), (''customerAddress'', Null),
                 (''customerCity'', Null), (''notes'', Null), (''quantity'', Num 2),
                 (''status'', Str ''pending''), (''language'', Str ''de''),
                 (''confirmationScript'', Null), (''id'', Str ''o1''),
                 (''createdAt'', Date 7)])]\<rparr>)"
proof -
  obtain ar fr where ar: "script_ar chair ali = Inr ar" and fr: "script_fr chair ali = Inr fr"
    using chair_scripts_succeed by blast
  have "generateConfirmationScript chair ali (Str ''de'') = Inr Undefined"
    by (rule generate_chair(2) [OF ar chair_script_en_example fr])
  then show ?thesis
    by (simp add: post_orders_def chair_store_def getProduct_def get_def or_else_def Let_def
          createOrder_def assign_def flip: ali_def)
qed

theorem post_orders_pending_with_script_witness:
  "case post_orders chair_store ''o1'' 7
          [(''productId'', Str ''p1''), (''customerName'', Str ''Ali''),
           (''customerPhone'', Str ''555''), (''quantity'', Num 2), (''language'', Str ''en'')] of
     Some (Json order, s') \<Rightarrow>
       get order ''status'' = Str ''pending''
       \<and> get order ''confirmationScript'' = Str (chair_script ''A wooden chair'')
       \<and> chair_script ''A wooden chair'' \<noteq> []
   | _ \<Rightarrow> False"
proof -
  obtain ar fr where ar: "script_ar chair ali = Inr ar" and fr: "script_fr chair ali = Inr fr"
    using chair_scripts_succeed by blast
  have gen: "generateConfirmationScript chair ali (Str ''en'')
               = Inr (Str (chair_script ''A wooden chair''))"
    by (rule generate_chair(1) [OF ar chair_script_en_example fr])
  have run: "post_orders chair_store ''o1'' 7
          [(''productId'', Str ''p1''), (''customerName'', Str ''Ali''),
           (''customerPhone'', Str ''555''), (''quantity'', Num 2), (''language'', Str ''en'')]
      = Some (Json [(''productId'', Str ''p1''), (''customerName'', Str ''Ali''),
                 (''customerPhone'', Str ''555''), (''customerAddress'', Null),
                 (''customerCity'', Null), (''notes'', Null), (''quantity'', Num 2),
                 (''status'', Str ''pending''), (''language'', Str ''en''),
                 (''confirmationScript'', Str (chair_script ''A wooden chair'')),
                 (''id'', Str ''o1''), (''createdAt'', Date 7)],
           \<lparr>products = [(''p1'', chair)],
              orders = [(''o1'',
                [(''productId'', Str ''p1''), (''customerName'', Str ''Ali''),
                 (''customerPhone'', Str ''555''), (''customerAddress'', Null),
                 (''customerCity'', Null), (''notes'', Null), (''quantity'', Num 2),
                 (''status'', Str ''pending''), (''language'', Str ''en''),
                 (''confirmationScript'', Str (chair_script ''A wooden chair'')),
                 (''id'', Str ''o1''), (''createdAt'', Date 7)])]\<rparr>)"
    using gen
    by (simp add: post_orders_def chair_store_def getProduct_def get_def or_else_def Let_def
          createOrder_def assign_def chair_script_def flip: ali_def)
  show ?thesis
    using post_orders_pending_with_script [OF run] by (simp add: run get_def)
qed


section \<open>What the example script contains\<close>

lemma scripts_succeed:
  assumes "get product ''name'' = Str pname"
    and "get product ''price'' = Str price"
    and "get_prop (get product ''descriptions'') ''ar'' = Inr (Str d_ar)"
    and "get_prop (get product ''descriptions'') ''fr'' = Inr (Str d_fr)"
    and "get customer ''customerName'' = Str cname"
    and "get customer ''quantity'' = Num 2"
    and "get customer ''customerAddress'' = Undefined"
    and "get customer ''customerCity'' = Undefined"
  shows "\<exists>t. script_ar product customer = Inr t" "\<exists>t. script_fr product customer = Inr t"
  by (simp_all add: script_ar_def script_fr_def assms and_then_def number_string_def decimal_digit)

text \<open>
  C1, as amended. For language "en", a product with name "Chair", price "$50" and
  string descriptions, and the customer fields name "Ali", phone "555", quantity 2 with
  address and city absent, the generated script is the English template filled in. It
  contains "Chair", "$50", "Ali" and "2". The phone number is not part of the
  template: "555", and likewise "City:" and "Address:", occur in the script exactly
  when they occur in the product's English description.
\<close>

theorem confirmation_script_example:
  assumes "get product ''name'' = Str ''Chair''"
    and "get product ''price'' = Str ''$50''"
    and "get_prop (get product ''descriptions'') ''ar'' = Inr (Str d_ar)"
    and "get_prop (get product ''descriptions'') ''en'' = Inr (Str d_en)"
    and "get_prop (get product ''descriptions'') ''fr'' = Inr (Str d_fr)"
    and "get customer ''customerName'' = Str ''Ali''"
    and "get customer ''customerPhone'' = Str ''555''"
    and "get customer ''quantity'' = Num 2"
    and "get customer ''customerAddress'' = Undefined"
    and "get customer ''customerCity'' = Undefined"
  shows "generateConfirmationScript product customer (Str ''en'') = Inr (Str (chair_script d_en))
       \<and> sublist ''Chair'' (chair_script d_en)
       \<and> sublist ''$50'' (chair_script d_en)
       \<and> sublist ''Ali'' (chair_script d_en)
       \<and> sublist ''2'' (chair_script d_en)
       \<and> (sublist ''555'' (chair_script d_en) \<longleftrightarrow> sublist ''555'' d_en)
       \<and> (sublist ''City:'' (chair_script d_en) \<longleftrightarrow> sublist ''City:'' d_en)
       \<and> (sublist ''Address:'' (chair_script d_en) \<longleftrightarrow> sublist ''Address:'' d_en)"
proof -
  obtain ar fr where ar: "script_ar product customer = Inr ar"
    and fr: "script_fr product customer = Inr fr"
    using scripts_succeed [OF assms(1,2,3,5,6,8,9,10)] by blast
  have en: "script_en product customer = Inr (chair_script d_en)"
    by (rule chair_script_en [OF assms(1,2,4,6,8,9,10)])
  have "generateConfirmationScript product customer (Str ''en'') = Inr (Str (chair_script d_en))"
    by (rule generate_chair(1) [OF ar en fr])
  then show ?thesis
    by (simp add: chair_script_contains chair_script_only_from_description)
qed

theorem confirmation_script_example_witness:
  "generateConfirmationScript chair ali (Str ''en'') = Inr (Str (chair_script ''A wooden chair''))
   \<and> sublist ''Chair'' (chair_script ''A wooden chair'')
   \<and> sublist ''$50'' (chair_script ''A wooden chair'')
   \<and> sublist ''Ali'' (chair_script ''A wooden chair'')
   \<and> sublist ''2'' (chair_script ''A wooden chair'')
   \<and> \<not> sublist ''City:'' (chair_script ''A wooden chair'')
   \<and> \<not> sublist ''Address:'' (chair_script ''A wooden chair'')"
  using confirmation_script_example
    [of chair "''Kursi khashabi''" "''A wooden chair''" "''Une chaise en bois''" ali]
  by (simp add: chair_def ali_def get_def sublist_code)

text \<open>
  With the description "A wooden chair", the script of the example does not contain
  "555".
\<close>

theorem confirmation_script_without_phone_counterexample:
  "generateConfirmationScript chair ali (Str ''en'') = Inr (Str (chair_script ''A wooden chair''))
   \<and> \<not> sublist ''555'' (chair_script ''A wooden chair'')"
proof -
  obtain ar fr where ar: "script_ar chair ali = Inr ar" and fr: "script_fr chair ali = Inr fr"
    using chair_scripts_succeed by blast
  have "generateConfirmationScript chair ali (Str ''en'')
          = Inr (Str (chair_script ''A wooden chair''))"
    by (rule generate_chair(1) [OF ar chair_script_en_example fr])
  moreover have "\<not> sublist ''555'' (chair_script ''A wooden chair'')"
    by (simp add: chair_script_only_from_description sublist_code)
  ultimately show ?thesis by simp
qed

section \<open>The descriptions of stored products\<close>

lemma named_keys:
  "''name'' \<in> set names_without_builtin" "''descriptions'' \<in> set names_without_builtin"
  "''benefits'' \<in> set names_without_builtin" "''features'' \<in> set names_without_builtin"
  "''price'' \<in> set names_without_builtin" "''category'' \<in> set names_without_builtin"
  by (simp_all add: names_without_builtin_def)

lemma get_prop_named:
  assumes "k \<in> set names_without_builtin" and "v \<noteq> Undefined" and "v \<noteq> Null"
  shows "\<exists>x. get_prop v k = Inr x"
proof (cases v)
  case (Obj kvs)
  then show ?thesis
    using assms(1)
    by (cases "map_of kvs k") (auto simp: names_without_builtin_def object_prototype_keys_def)
qed (use assms in simp_all)

lemma get_prop_nullish: "v = Undefined \<or> v = Null \<Longrightarrow> get_prop v k = Inl TypeError"
  by auto

lemma analyze_product_cases:
  "analyze_product s new_id now imageUrl analysis = Some (Failure 500, s)
   \<or> (\<exists>d input. get_prop analysis ''descriptions'' = Inr d
         \<and> get input ''descriptions'' = d
         \<and> analyze_product s new_id now imageUrl analysis
             = Some (Json (fst (createProduct s new_id now input)),
                     snd (createProduct s new_id now input)))"
proof (cases "analysis = Undefined \<or> analysis = Null")
  case True
  then have "get_prop analysis ''name'' = Inl TypeError"
    by (rule get_prop_nullish)
  then show ?thesis
    by (simp add: analyze_product_def and_then_def)
next
  case False
  then have nn: "analysis \<noteq> Undefined" "analysis \<noteq> Null"
    by simp_all
  obtain n where n: "get_prop analysis ''name'' = Inr n"
    using get_prop_named [OF named_keys(1) nn] by blast
  obtain d where d: "get_prop analysis ''descriptions'' = Inr d"
    using get_prop_named [OF named_keys(2) nn] by blast
  obtain b where b: "get_prop analysis ''benefits'' = Inr b"
    using get_prop_named [OF named_keys(3) nn] by blast
  obtain f where f: "get_prop analysis ''features'' = Inr f"
    using get_prop_named [OF named_keys(4) nn] by blast
  obtain p where p: "get_prop analysis ''price'' = Inr p"
    using get_prop_named [OF named_keys(5) nn] by blast
  obtain c where c: "get_prop analysis ''category'' = Inr c"
    using get_prop_named [OF named_keys(6) nn] by blast
  define input where "input =
    [(''name'', or_else n (Str ''Unnamed Product'')), (''imageUrl'', Str imageUrl),
     (''descriptions'', d), (''benefits'', or_else b default_lists),
     (''features'', or_else f default_lists), (''price'', or_else p Null),
     (''category'', or_else c Null)]"
  have "get input ''descriptions'' = d"
    by (simp add: input_def get_def)
  moreover have "analyze_product s new_id now imageUrl analysis
             = Some (Json (fst (createProduct s new_id now input)),
                     snd (createProduct s new_id now input))"
    by (simp add: analyze_product_def and_then_def n d b f p c input_def case_prod_beta)
  ultimately have "\<exists>d input. get_prop analysis ''descriptions'' = Inr d
         \<and> get input ''descriptions'' = d
         \<and> analyze_product s new_id now imageUrl analysis
             = Some (Json (fst (createProduct s new_id now input)),
                     snd (createProduct s new_id now input))"
    using d by (intro exI [of _ d] exI [of _ input]) simp
  then show ?thesis ..
qed

lemma all_descriptions_ok_iff:
  "all_descriptions_ok s \<longleftrightarrow>
     (\<forall>pid product. (pid, product) \<in> set (products s)
        \<longrightarrow> descriptions_ok (get product ''descriptions''))"
  by (auto simp: all_descriptions_ok_def list_all_iff)

lemma createProduct_descriptions:
  "get (fst (createProduct s new_id now input)) ''descriptions'' = get input ''descriptions''"
  by (simp add: createProduct_def Let_def assign_Cons assign_Nil get_update)

lemma createProduct_keeps_ok:
  assumes "all_descriptions_ok s" and "descriptions_ok (get input ''descriptions'')"
  shows "all_descriptions_ok (snd (createProduct s new_id now input))"
  using assms
  by (auto simp: all_descriptions_ok_iff snd_createProduct createProduct_descriptions
        dest!: set_update_cases)

lemma get_assign_descriptions:
  assumes "list_all (\<lambda>(k, v). k = ''descriptions'' \<longrightarrow> descriptions_ok v) body"
    and "descriptions_ok (get old ''descriptions'')"
  shows "descriptions_ok (get (assign old body) ''descriptions'')"
proof (cases "map_of (rev body) ''descriptions''")
  case None
  with assms(2) show ?thesis
    by (simp add: get_def map_of_assign)
next
  case (Some v)
  then have "(''descriptions'', v) \<in> set body"
    by (auto dest: map_of_SomeD)
  with assms(1) have "descriptions_ok v"
    by (auto simp: list_all_iff)
  with Some show ?thesis
    by (simp add: get_def map_of_assign)
qed

lemma updateProduct_keeps_ok:
  assumes "all_descriptions_ok s"
    and "list_all (\<lambda>(k, v). k = ''descriptions'' \<longrightarrow> descriptions_ok v) body"
  shows "all_descriptions_ok (snd (updateProduct s pid body))"
proof (cases "map_of (products s) pid")
  case None
  with assms(1) show ?thesis
    by (simp add: updateProduct_def)
next
  case (Some old)
  then have "(pid, old) \<in> set (products s)"
    by (rule map_of_SomeD)
  with assms(1) have "descriptions_ok (get old ''descriptions'')"
    by (auto simp: all_descriptions_ok_iff)
  then have "descriptions_ok (get (assign old body) ''descriptions'')"
    by (rule get_assign_descriptions [OF assms(2)])
  then show ?thesis
    using assms(1) Some
    by (auto simp: all_descriptions_ok_iff updateProduct_def Let_def assign_Cons assign_Nil
          get_update dest!: set_update_cases)
qed

lemma handle_keeps_ok:
  assumes "all_descriptions_ok s" and "keeps_descriptions r"
  shows "case handle s r of None \<Rightarrow> False | Some s' \<Rightarrow> all_descriptions_ok s'"
proof (cases r)
  case (Analyze new_id now imageUrl analysis)
  from analyze_product_cases [of s new_id now imageUrl analysis] show ?thesis
  proof
    assume "analyze_product s new_id now imageUrl analysis = Some (Failure 500, s)"
    with assms(1) Analyze show ?thesis by simp
  next
    assume "\<exists>d input. get_prop analysis ''descriptions'' = Inr d
         \<and> get input ''descriptions'' = d
         \<and> analyze_product s new_id now imageUrl analysis
             = Some (Json (fst (createProduct s new_id now input)),
                     snd (createProduct s new_id now input))"
    then obtain d input where d: "get_prop analysis ''descriptions'' = Inr d"
      and input: "get input ''descriptions'' = d"
      and run: "analyze_product s new_id now imageUrl analysis
             = Some (Json (fst (createProduct s new_id now input)),
                     snd (createProduct s new_id now input))"
      by blast
    from assms(2) Analyze d have "descriptions_ok d" by simp
    with input have "descriptions_ok (get input ''descriptions'')" by simp
    with assms(1) have "all_descriptions_ok (snd (createProduct s new_id now input))"
      by (rule createProduct_keeps_ok)
    with Analyze run show ?thesis by simp
  qed
next
  case (PatchProduct pid body)
  with assms have "all_descriptions_ok (snd (updateProduct s pid body))"
    by (simp add: updateProduct_keeps_ok)
  moreover have "snd (patch_product s pid body) = snd (updateProduct s pid body)"
    by (simp add: patch_product_def split: prod.splits option.splits)
  ultimately show ?thesis
    using PatchProduct by simp
qed

lemma serve_keeps_ok:
  assumes "all_descriptions_ok s" and "list_all keeps_descriptions requests"
  shows "case serve s requests of None \<Rightarrow> False | Some s' \<Rightarrow> all_descriptions_ok s'"
  using assms
proof (induction requests arbitrary: s)
  case Nil
  then show ?case by simp
next
  case (Cons r requests)
  from Cons.prems have r: "keeps_descriptions r" and rest: "list_all keeps_descriptions requests"
    by simp_all
  from handle_keeps_ok [OF Cons.prems(1) r] obtain s' where
    s': "handle s r = Some s'" "all_descriptions_ok s'"
    by (auto split: option.splits)
  from Cons.IH [OF s'(2) rest] s'(1) show ?case
    by simp
qed

text \<open>
  C2, as amended. From the empty store, after any sequence of analyze and
  product-update requests in which every reply of the model carries a \<open>descriptions\<close>
  object with exactly the keys ar, en, fr, each a string, and every update either
  leaves \<open>descriptions\<close> out or supplies such an object, the \<open>descriptions\<close> of every
  stored product is an object with exactly the three language keys, each a string.
\<close>

theorem descriptions_keep_three_languages:
  assumes "list_all keeps_descriptions requests"
  shows "case serve empty_store requests of
           None \<Rightarrow> False
         | Some s \<Rightarrow> all_descriptions_ok s"
proof -
  have "all_descriptions_ok empty_store"
    by (simp add: all_descriptions_ok_def empty_store_def)
  then show ?thesis
    using assms by (rule serve_keeps_ok)
qed

theorem descriptions_keep_three_languages_witness:
  "serve empty_store
     [Analyze ''p1'' 5 ''/uploads/chair.png''
        (Obj [(''name'', Str ''Chair''),
              (''descriptions'',
                 Obj [(''ar'', Str ''Kursi khashabi''), (''en'', Str ''A wooden chair''),
                      (''fr'', Str ''Une chaise en bois'')]),
              (''price'', Str ''$50'')]),
      PatchProduct ''p1'' [(''price'', Str ''$45'')]]
   = Some \<lparr>products =
        [(''p1'',
          [(''name'', Str ''Chair''),
           (''imageUrl'', Str ''/uploads/chair.png''),
           (''descriptions'',
              Obj [(''ar'', Str ''Kursi khashabi''), (''en'', Str ''A wooden chair''),
                   (''fr'', Str ''Une chaise en bois'')]),
           (''benefits'', default_lists),
           (''features'', default_lists),
           (''price'', Str ''$45''),
           (''category'', Null),
           (''id'', Str ''p1''),
           (''createdAt'', Date 5)])],
       orders = []\<rparr>
   \<and> all_descriptions_ok \<lparr>products =
        [(''p1'',
          [(''name'', Str ''Chair''),
           (''imageUrl'', Str ''/uploads/chair.png''),
           (''descriptions'',
              Obj [(''ar'', Str ''Kursi khashabi''), (''en'', Str ''A wooden chair''),
                   (''fr'', Str ''Une chaise en bois'')]),
           (''benefits'', default_lists),
           (''features'', default_lists),
           (''price'', Str ''$45''),
           (''category'', Null),
           (''id'', Str ''p1''),
           (''createdAt'', Date 5)])],
       orders = []\<rparr>"
  using descriptions_keep_three_languages
    [of "[Analyze ''p1'' 5 ''/uploads/chair.png''
        (Obj [(''name'', Str ''Chair''),
              (''descriptions'',
                 Obj [(''ar'', Str ''Kursi khashabi''), (''en'', Str ''A wooden chair''),
                      (''fr'', Str ''Une chaise en bois'')]),
              (''price'', Str ''$50'')]),
      PatchProduct ''p1'' [(''price'', Str ''$45'')]]"]
  by (simp add: analyze_product_def patch_product_def updateProduct_def createProduct_def
        and_then_def object_prototype_keys_def descriptions_ok_def empty_store_def Let_def
        assign_def get_def or_else_def coalesce_def nullish_def default_lists_def)

text \<open>
  An update whose \<open>descriptions\<close> holds only one language replaces the stored value;
  a reply of the model without \<open>descriptions\<close> creates a product that has none.
\<close>

theorem descriptions_overwritten_counterexample:
  "serve empty_store
     [Analyze ''p1'' 5 ''/uploads/chair.png''
        (Obj [(''name'', Str ''Chair''),
              (''descriptions'',
                 Obj [(''ar'', Str ''Kursi khashabi''), (''en'', Str ''A wooden chair''),
                      (''fr'', Str ''Une chaise en bois'')]),
              (''price'', Str ''$50'')]),
      PatchProduct ''p1'' [(''descriptions'', Obj [(''ar'', Str ''Kursi'')])]]
   = Some \<lparr>products =
        [(''p1'',
          [(''name'', Str ''Chair''),
           (''imageUrl'', Str ''/uploads/chair.png''),
           (''descriptions'', Obj [(''ar'', Str ''Kursi'')]),
           (''benefits'', default_lists),
           (''features'', default_lists),
           (''price'', Str ''$50''),
           (''category'', Null),
           (''id'', Str ''p1''),
           (''createdAt'', Date 5)])],
       orders = []\<rparr>
   \<and> \<not> descriptions_ok (Obj [(''ar'', Str ''Kursi'')])
   \<and> serve empty_store
         [Analyze ''p2'' 6 ''/uploads/table.png'' (Obj [(''name'', Str ''Table'')])]
       = Some \<lparr>products =
            [(''p2'',
              [(''name'', Str ''Table''),
               (''imageUrl'', Str ''/uploads/table.png''),
               (''descriptions'', Undefined),
               (''benefits'', default_lists),
               (''features'', default_lists),
               (''price'', Null),
               (''category'', Null),
               (''id'', Str ''p2''),
               (''createdAt'', Date 6)])],
           orders = []\<rparr>
   \<and> \<not> descriptions_ok Undefined"
  by (simp add: analyze_product_def patch_product_def updateProduct_def createProduct_def
        and_then_def object_prototype_keys_def descriptions_ok_def empty_store_def Let_def
        assign_def get_def or_else_def coalesce_def nullish_def default_lists_def)

section \<open>The product document and the clock\<close>

lemma product_document_template_shape:
  \<open>\<exists>middle. \<forall>locale_date.
     product_document_template locale_date product lang t benefits_html features_html
       = Inr ''\<newline><!DOCTYPE html>\<newline><html dir="'' # middle @
         [Inr ''\<newline>  <div class="footer">\<newline>    <p>ProductAI - '',
          Inr (locale_date (if lang = Str ''ar'' then ''ar-MA''
                            else if lang = Str ''fr'' then ''fr-FR'' else ''en-US'')),
          Inr ''</p>\<newline>  </div>\<newline></body>\<newline></html>\<newline>  '']\<close>
  by (rule exI [of _ "take 27 (tl (product_document_template (\<lambda>tag. [])
                      product lang t benefits_html features_html))"])
     (simp add: product_document_template_def)

lemma and_then_simps: "and_then (Inr x) f = f x" "and_then (Inl e) f = Inl e"
  by (simp_all add: and_then_def)

lemma template_framed:
  "template (Inr first # middle @ [Inr x, Inr y, Inr z])
     = and_then (template middle) (\<lambda>m. Inr (first @ m @ x @ y @ z))"
  by (simp add: template_Inr template_append and_then_def split: sum.splits)

lemma trim_document:
  \<open>trim (''\<newline><!DOCTYPE html>\<newline><html dir="'' @ m @
         ''\<newline>  <div class="footer">\<newline>    <p>ProductAI - '' @ d @
         ''</p>\<newline>  </div>\<newline></body>\<newline></html>\<newline>  '')
   = (''<!DOCTYPE html>\<newline><html dir="'' @ m @ ''\<newline>  <div class="footer">'') @
     ''\<newline>    <p>ProductAI - '' @ d @ ''</p>\<newline>'' @
     ''  </div>\<newline></body>\<newline></html>''\<close>
  using trim_framed [of "CHR ''<''" "CHR ''>''"
      "''!DOCTYPE html>\<newline><html dir='' @ [CHR 0x22] @ m @
       ''\<newline>  <div class='' @ [CHR 0x22] @ ''footer'' @ [CHR 0x22] @ ''>\<newline>    <p>ProductAI - '' @ d @
       ''</p>\<newline>  </div>\<newline></body>\<newline></html''" 2]
  by (simp add: js_whitespace_def numeral_eq_Suc)

text \<open>
  C6. For every product and every language, the output of \<open>generateProductPDF\<close>
  depends on the clock only in the generation-date line of the footer. Either the
  generation throws, in the same way whatever the clock reads; or there are a text
  before and a text after, fixed by the product and the language, such that every run
  returns the text before, the line \<open>    <p>ProductAI - date</p>\<close> and the text
  after. Two runs on the same product and language are thus byte-identical once that
  line is left out.
\<close>

theorem product_document_clock_only_in_footer:
  \<open>(\<exists>e. \<forall>locale_date. generateProductPDF locale_date product lang = Inl e)
   \<or> (\<exists>before after. \<forall>locale_date.
         generateProductPDF locale_date product lang
           = Inr (before @ ''\<newline>    <p>ProductAI - '' @
                  locale_date (if lang = Str ''ar'' then ''ar-MA''
                               else if lang = Str ''fr'' then ''fr-FR'' else ''en-US'') @
                  ''</p>\<newline>'' @ after))\<close>
proof -
  define tag where
    "tag = (if lang = Str ''ar'' then ''ar-MA''
            else if lang = Str ''fr'' then ''fr-FR'' else ''en-US'')"
  show ?thesis
  proof (cases "and_then (to_string lang) labels_lookup")
    case (Inl e)
    then show ?thesis
      by (simp add: generateProductPDF_def and_then_def)
  next
    case t: (Inr t)
    show ?thesis
    proof (cases "list_section t l_benefits (get product ''benefits'') lang")
      case (Inl e)
      with t show ?thesis
        by (simp add: generateProductPDF_def and_then_def)
    next
      case b: (Inr benefits_html)
      show ?thesis
      proof (cases "list_section t l_features (get product ''features'') lang")
        case (Inl e)
        with t b show ?thesis
          by (simp add: generateProductPDF_def and_then_def)
      next
        case f: (Inr features_html)
        obtain middle where shape:
          \<open>\<And>locale_date.
             product_document_template locale_date product lang t benefits_html features_html
               = Inr ''\<newline><!DOCTYPE html>\<newline><html dir="'' # middle @
                 [Inr ''\<newline>  <div class="footer">\<newline>    <p>ProductAI - '',
                  Inr (locale_date tag),
                  Inr ''</p>\<newline>  </div>\<newline></body>\<newline></html>\<newline>  '']\<close>
          using product_document_template_shape [of product lang t benefits_html features_html]
          unfolding tag_def by blast
        have run: \<open>generateProductPDF locale_date product lang
            = and_then (template middle) (\<lambda>m.
                Inr (trim (''\<newline><!DOCTYPE html>\<newline><html dir="'' @ m @
                           ''\<newline>  <div class="footer">\<newline>    <p>ProductAI - '' @
                           locale_date tag @
                           ''</p>\<newline>  </div>\<newline></body>\<newline></html>\<newline>  '')))\<close>
          for locale_date
        proof -
          have \<open>template (product_document_template locale_date product lang t
                          benefits_html features_html)
                  = and_then (template middle) (\<lambda>m.
                      Inr (''\<newline><!DOCTYPE html>\<newline><html dir="'' @ m @
                           ''\<newline>  <div class="footer">\<newline>    <p>ProductAI - '' @
                           locale_date tag @
                           ''</p>\<newline>  </div>\<newline></body>\<newline></html>\<newline>  ''))\<close>
            by (simp only: shape template_framed)
          then show ?thesis
            by (cases "template middle")
               (simp_all add: generateProductPDF_def t b f and_then_simps)
        qed
        show ?thesis
        proof (cases "template middle")
          case (Inl e)
          then have "\<forall>locale_date. generateProductPDF locale_date product lang = Inl e"
            by (simp add: run and_then_simps)
          then show ?thesis by blast
        next
          case (Inr m)
          have \<open>\<forall>locale_date. generateProductPDF locale_date product lang
                  = Inr ((''<!DOCTYPE html>\<newline><html dir="'' @ m @
                          ''\<newline>  <div class="footer">'') @
                         ''\<newline>    <p>ProductAI - '' @ locale_date tag @ ''</p>\<newline>'' @
                         ''  </div>\<newline></body>\<newline></html>'')\<close>
            by (simp only: run Inr and_then_simps trim_document) simp
          then show ?thesis
            unfolding tag_def by blast
        qed
      qed
    qed
  qed
qed

lemma chair_document_succeeds:
  "\<exists>doc. generateProductPDF locale_date chair (Str ''en'') = Inr doc"
  by (simp add: generateProductPDF_def product_document_template_def list_section_def
        has_items_def labels_lookup_def label_def labels_en_def chair_def get_def
        default_lists_def nullish_def and_then_simps)

theorem product_document_clock_only_in_footer_witness:
  "\<exists>before after.
     generateProductPDF (\<lambda>tag. ''11/3/2026'') chair (Str ''en'')
       = Inr (before @ ''\<newline>    <p>ProductAI - 11/3/2026</p>\<newline>'' @ after)
     \<and> generateProductPDF (\<lambda>tag. ''11/4/2026'') chair (Str ''en'')
       = Inr (before @ ''\<newline>    <p>ProductAI - 11/4/2026</p>\<newline>'' @ after)"
proof -
  from product_document_clock_only_in_footer [of chair "Str ''en''"]
  show ?thesis
  proof
    assume "\<exists>e. \<forall>locale_date. generateProductPDF locale_date chair (Str ''en'') = Inl e"
    then obtain e where "generateProductPDF (\<lambda>tag. ''11/3/2026'') chair (Str ''en'') = Inl e"
      by blast
    with chair_document_succeeds [of "\<lambda>tag. ''11/3/2026''"] show ?thesis
      by simp
  next
    assume "\<exists>before after. \<forall>locale_date.
         generateProductPDF locale_date chair (Str ''en'')
           = Inr (before @ ''\<newline>    <p>ProductAI - '' @
                  locale_date (if Str ''en'' = Str ''ar'' then ''ar-MA''
                               else if Str ''en'' = Str ''fr'' then ''fr-FR'' else ''en-US'') @
                  ''</p>\<newline>'' @ after)"
    then obtain before after where both: "\<And>locale_date.
         generateProductPDF locale_date chair (Str ''en'')
           = Inr (before @ ''\<newline>    <p>ProductAI - '' @
                  locale_date (if Str ''en'' = Str ''ar'' then ''ar-MA''
                               else if Str ''en'' = Str ''fr'' then ''fr-FR'' else ''en-US'') @
                  ''</p>\<newline>'' @ after)"
      by blast
    have "generateProductPDF (\<lambda>tag. ''11/3/2026'') chair (Str ''en'')
            = Inr (before @ ''\<newline>    <p>ProductAI - 11/3/2026</p>\<newline>'' @ after)"
      by (simp add: both)
    moreover have "generateProductPDF (\<lambda>tag. ''11/4/2026'') chair (Str ''en'')
            = Inr (before @ ''\<newline>    <p>ProductAI - 11/4/2026</p>\<newline>'' @ after)"
      by (simp add: both)
    ultimately show ?thesis by blast
  qed
qed

end
